theory Spec2Isabelle
  imports Complex_Main
begin

section \<open>Errors\<close>

text \<open>
  Go errors are values. \<open>ErrorNew\<close> stands for \<^verbatim>\<open>errors.New(msg)\<close> and for a
  \<^verbatim>\<open>fmt.Errorf\<close> whose message is fully rendered, \<open>ErrorWrap e msg\<close> for
  \<^verbatim>\<open>errors.Wrap(e, msg)\<close>, \<open>NumError fn num kind\<close> for the \<^verbatim>\<open>*strconv.NumError\<close> that
  \<^verbatim>\<open>strconv.Atoi\<close> returns, and \<open>IndexOutOfRange\<close> for the run-time panic of reading
  \<^verbatim>\<open>params[i]\<close> beyond the slice.
\<close>

datatype numerr = ErrSyntax | ErrRange

datatype error =
    ErrorNew string
  | ErrorWrap error string
  | NumError string string numerr
  | IndexOutOfRange

section \<open>Bytes and library functions on strings\<close>

text \<open>
  A Go string is a sequence of bytes; \<open>char\<close> is a byte and \<open>string\<close> a byte list.
\<close>

definition squote :: char where
  "squote = CHR 0x27"

definition dquote :: char where
  "dquote = CHR 0x22"

definition backslash :: char where
  "backslash = CHR 0x5C"

definition nul :: char where
  "nul = CHR 0x00"

text \<open>
  \<^verbatim>\<open>unicode.IsSpace(rune(c))\<close> for a byte \<open>c\<close>: the byte is read as a Latin-1 code point,
  so besides the six ASCII white-space bytes, 0x85 and 0xA0 count as space.
\<close>

definition isSpaceByte :: "char \<Rightarrow> bool" where
  "isSpaceByte c = (c \<in> set [CHR 0x09, CHR 0x0A, CHR 0x0B, CHR 0x0C, CHR 0x0D, CHR 0x20,
                               CHR 0x85, CHR 0xA0])"

text \<open>
  The UTF-8 encodings of the runes for which \<^verbatim>\<open>unicode.IsSpace\<close> holds: the six ASCII
  ones, U+0085, U+00A0, U+1680, U+2000 to U+200A, U+2028, U+2029, U+202F, U+205F, U+3000.
  None is a prefix or a suffix of another.
\<close>

definition spaceRunes :: "string list" where
  "spaceRunes =
    [[CHR 0x09], [CHR 0x0A], [CHR 0x0B], [CHR 0x0C], [CHR 0x0D], [CHR 0x20],
     [CHR 0xC2, CHR 0x85], [CHR 0xC2, CHR 0xA0],
     [CHR 0xE1, CHR 0x9A, CHR 0x80],
     [CHR 0xE2, CHR 0x80, CHR 0x80], [CHR 0xE2, CHR 0x80, CHR 0x81],
     [CHR 0xE2, CHR 0x80, CHR 0x82], [CHR 0xE2, CHR 0x80, CHR 0x83],
     [CHR 0xE2, CHR 0x80, CHR 0x84], [CHR 0xE2, CHR 0x80, CHR 0x85],
     [CHR 0xE2, CHR 0x80, CHR 0x86], [CHR 0xE2, CHR 0x80, CHR 0x87],
     [CHR 0xE2, CHR 0x80, CHR 0x88], [CHR 0xE2, CHR 0x80, CHR 0x89],
     [CHR 0xE2, CHR 0x80, CHR 0x8A],
     [CHR 0xE2, CHR 0x80, CHR 0xA8], [CHR 0xE2, CHR 0x80, CHR 0xA9],
     [CHR 0xE2, CHR 0x80, CHR 0xAF],
     [CHR 0xE2, CHR 0x81, CHR 0x9F],
     [CHR 0xE3, CHR 0x80, CHR 0x80]]"

text \<open>
  The number of bytes of the white-space rune that \<open>s\<close> starts with under the encodings
  \<open>encs\<close>, 0 when it starts with none.
\<close>

definition spacePrefixLen :: "string list \<Rightarrow> string \<Rightarrow> nat" where
  "spacePrefixLen encs s =
     (case List.find (\<lambda>e. take (length e) s = e) encs of
        None \<Rightarrow> 0
      | Some e \<Rightarrow> length e)"

text \<open>
  \<^verbatim>\<open>strings.TrimLeftFunc(s, unicode.IsSpace)\<close>: decode a rune at the head, drop it while it
  is white space. The fuel is the length of the string: every round drops at least one byte.
\<close>

fun stripRunes :: "nat \<Rightarrow> string list \<Rightarrow> string \<Rightarrow> string" where
  "stripRunes 0 encs s = s"
| "stripRunes (Suc k) encs s =
     (if spacePrefixLen encs s = 0 then s
      else stripRunes k encs (drop (spacePrefixLen encs s) s))"

definition TrimLeftSpace :: "string \<Rightarrow> string" where
  "TrimLeftSpace s = stripRunes (length s) spaceRunes s"

text \<open>
  \<^verbatim>\<open>strings.TrimRightFunc(s, unicode.IsSpace)\<close> decodes the last rune; a string ends with a
  white-space rune exactly when it ends with one of the encodings.
\<close>

definition TrimRightSpace :: "string \<Rightarrow> string" where
  "TrimRightSpace s = rev (stripRunes (length s) (map rev spaceRunes) (rev s))"

definition TrimSpace :: "string \<Rightarrow> string" where
  "TrimSpace s = TrimRightSpace (TrimLeftSpace s)"

text \<open>
  \<^verbatim>\<open>strings.IndexFunc(s, unicode.IsSpace)\<close>: the byte index of the first white-space rune,
  \<open>None\<close> for the source's \<open>-1\<close>. An encoding of a white-space rune never starts inside
  another valid rune, so the first rune found by decoding is the first position at which
  one of the encodings starts.
\<close>

fun IndexSpace :: "string \<Rightarrow> nat option" where
  "IndexSpace [] = None"
| "IndexSpace (c # cs) =
     (if spacePrefixLen spaceRunes (c # cs) \<noteq> 0 then Some 0
      else map_option Suc (IndexSpace cs))"

text \<open>\<^verbatim>\<open>strings.Split(s, ":")\<close>: one part more than there are colons.\<close>

fun splitColon :: "string \<Rightarrow> string list" where
  "splitColon [] = [[]]"
| "splitColon (c # cs) =
     (if c = CHR '':'' then [] # splitColon cs
      else (case splitColon cs of
              [] \<Rightarrow> [[c]]
            | p # ps \<Rightarrow> (c # p) # ps))"

text \<open>\<^verbatim>\<open>strings.Join(xs, " ")\<close>.\<close>

fun joinSpace :: "string list \<Rightarrow> string" where
  "joinSpace [] = []"
| "joinSpace [x] = x"
| "joinSpace (x # y # ys) = x @ '' '' @ joinSpace (y # ys)"

subsection \<open>Decimal integers\<close>

definition isDigit :: "char \<Rightarrow> bool" where
  "isDigit c = (48 \<le> (of_char c :: nat) \<and> (of_char c :: nat) \<le> 57)"

definition maxUint64 :: nat where
  "maxUint64 = 18446744073709551615"

text \<open>
  The digit loop of \<^verbatim>\<open>strconv.ParseUint(s, 10, 64)\<close>: a byte that is no digit is a syntax
  error, an overflow of the 64-bit accumulator a range error, whichever comes first.
\<close>

fun ParseUintLoop :: "nat \<Rightarrow> string \<Rightarrow> numerr + nat" where
  "ParseUintLoop n [] = Inr n"
| "ParseUintLoop n (c # cs) =
     (if \<not> isDigit c then Inl ErrSyntax
      else if n \<ge> maxUint64 div 10 + 1 then Inl ErrRange
      else if n * 10 + (of_char c - 48) > maxUint64 then Inl ErrRange
      else ParseUintLoop (n * 10 + (of_char c - 48)) cs)"

text \<open>
  \<^verbatim>\<open>strconv.Atoi\<close> on a 64-bit platform: an optional sign, at least one digit, only
  digits, and a value in \<open>-2^63 .. 2^63 - 1\<close>.
\<close>

definition Atoi :: "string \<Rightarrow> error + int" where
  "Atoi s =
     (if s = [] then Inl (NumError ''Atoi'' s ErrSyntax)
      else
        let neg = (hd s = CHR ''-'');
            digits = (if hd s = CHR ''+'' \<or> hd s = CHR ''-'' then tl s else s)
        in if digits = [] then Inl (NumError ''Atoi'' s ErrSyntax)
           else (case ParseUintLoop 0 digits of
                   Inl k \<Rightarrow> Inl (NumError ''Atoi'' s k)
                 | Inr un \<Rightarrow>
                     if \<not> neg \<and> un \<ge> 2 ^ 63 then Inl (NumError ''Atoi'' s ErrRange)
                     else if neg \<and> un > 2 ^ 63 then Inl (NumError ''Atoi'' s ErrRange)
                     else Inr (if neg then - int un else int un)))"

text \<open>The verb \<^verbatim>\<open>%d\<close> of \<^verbatim>\<open>fmt\<close> on an int.\<close>

definition digitChar :: "nat \<Rightarrow> char" where
  "digitChar d = ''0123456789'' ! (d mod 10)"

fun showNat :: "nat \<Rightarrow> string" where
  "showNat n = (if n < 10 then [digitChar n] else showNat (n div 10) @ [digitChar n])"

definition showInt :: "int \<Rightarrow> string" where
  "showInt i = (if i < 0 then CHR ''-'' # showNat (nat (- i)) else showNat (nat i))"

declare showNat.simps [simp del]

section \<open>The tokenizer\<close>

text \<open>\<^verbatim>\<open>isQuoteChar\<close>: the byte is \<^verbatim>\<open>'\<close> or \<^verbatim>\<open>"\<close>.\<close>

definition isQuoteChar :: "char \<Rightarrow> bool" where
  "isQuoteChar c = (c = squote \<or> c = dquote)"

text \<open>\<^verbatim>\<open>parseEscapeSequence\<close>: a lookup in a map of five two-byte sequences.\<close>

definition parseEscapeSequence :: "string \<Rightarrow> error + char" where
  "parseEscapeSequence seq =
     (if seq = [backslash, dquote] then Inr dquote
      else if seq = [backslash, squote] then Inr squote
      else if seq = [backslash, backslash] then Inr backslash
      else if seq = [backslash, CHR ''n''] then Inr (CHR 0x0A)
      else if seq = [backslash, CHR ''t''] then Inr (CHR 0x09)
      else Inl (ErrorNew (''usupported escape sequence '' @ [squote] @ seq @ [squote])))"

text \<open>
  The state of the parameter loop of \<^verbatim>\<open>parseCommand\<close> is \<open>(quotedChar, param, params,
  rest)\<close>, where \<open>rest\<close> is \<^verbatim>\<open>line[i:]\<close>. The source has the same block for a byte
  that is written to \<open>param\<close> in both branches of the test on \<open>quotedChar\<close>;
  \<open>writeByte\<close> is that block: \<open>c\<close> is the byte at \<open>i\<close> and \<open>rest\<close> the bytes after it.
\<close>

type_synonym config = "char \<times> string \<times> string list \<times> string"

definition writeByte ::
  "char \<Rightarrow> string \<Rightarrow> string list \<Rightarrow> char \<Rightarrow> string \<Rightarrow> error + config" where
  "writeByte quotedChar param params c rest =
     (if c = backslash then
        (case rest of
           [] \<Rightarrow> Inl (ErrorNew ''unfinished escape sequence'')
         | d # ds \<Rightarrow>
             (case parseEscapeSequence [c, d] of
                Inl e \<Rightarrow> Inr (quotedChar, param @ [c], params, rest)
              | Inr s \<Rightarrow> Inr (quotedChar, param @ [s], params, ds)))
      else Inr (quotedChar, param @ [c], params, rest))"

text \<open>One round of the loop, on the byte \<open>c\<close> at \<open>i\<close>.\<close>

definition iter ::
  "char \<Rightarrow> string \<Rightarrow> string list \<Rightarrow> char \<Rightarrow> string \<Rightarrow> error + config" where
  "iter quotedChar param params c rest =
     (if quotedChar = nul then
        (if isQuoteChar c then
           (if param \<noteq> [] then Inl (ErrorNew ''unexpected quotation character'')
            else Inr (c, param, params, rest))
         else if isSpaceByte c then
           (if param \<noteq> [] then Inr (quotedChar, [], params @ [param], rest)
            else Inr (quotedChar, param, params, rest))
         else writeByte quotedChar param params c rest)
      else
        (if c = quotedChar then Inr (nul, param, params, rest)
         else writeByte quotedChar param params c rest))"

text \<open>
  The loop \<^verbatim>\<open>for i = 0; i < l; i++\<close>. On an error the named results are returned as they
  stand: the parameters flushed so far, and the error.
\<close>

function splitParams :: "config \<Rightarrow> string list \<times> error option" where
  "splitParams (quotedChar, param, params, []) = (params @ [param], None)"
| "splitParams (quotedChar, param, params, c # rest) =
     (case iter quotedChar param params c rest of
        Inl e \<Rightarrow> (params, Some e)
      | Inr cfg \<Rightarrow> splitParams cfg)"
  by pat_completeness auto
termination
  by (relation "measure (\<lambda>(q, p, ps, rest). length rest)")
     (auto simp: iter_def writeByte_def less_Suc_eq_le
           split: if_splits list.splits sum.splits)

text \<open>The configurations the loop goes through, the first one included.\<close>

function visited :: "config \<Rightarrow> config list" where
  "visited (quotedChar, param, params, []) = [(quotedChar, param, params, [])]"
| "visited (quotedChar, param, params, c # rest) =
     (quotedChar, param, params, c # rest) #
     (case iter quotedChar param params c rest of
        Inl e \<Rightarrow> []
      | Inr cfg \<Rightarrow> visited cfg)"
  by pat_completeness auto
termination
  by (relation "measure (\<lambda>(q, p, ps, rest). length rest)")
     (auto simp: iter_def writeByte_def less_Suc_eq_le
           split: if_splits list.splits sum.splits)

text \<open>
  \<^verbatim>\<open>parseCommand\<close>. \<open>paramText\<close> is the value of \<^verbatim>\<open>line\<close> when the loop starts.
\<close>

definition paramText :: "string \<Rightarrow> string option" where
  "paramText line =
     (case IndexSpace (TrimSpace line) of
        None \<Rightarrow> None
      | Some i \<Rightarrow> Some (TrimSpace (drop i (TrimSpace line))))"

definition parseCommand :: "string \<Rightarrow> string \<times> string list \<times> error option" where
  "parseCommand line0 =
     (let line = TrimSpace line0 in
      case IndexSpace line of
        None \<Rightarrow> (line, [], None)
      | Some i \<Rightarrow>
          (let (params, err) = splitParams (nul, [], [], TrimSpace (drop i line))
           in (take i line, params, err)))"

text \<open>
  \<^verbatim>\<open>parseTime\<close>, with \<^verbatim>\<open>framesPerSecond = 75\<close>. The source returns the fields parsed so far
  together with the error; every caller drops them when the error is set.
\<close>

definition framesPerSecond :: int where
  "framesPerSecond = 75"

definition parseTime :: "string \<Rightarrow> error + (int \<times> int \<times> int)" where
  "parseTime length_s =
     (case splitColon length_s of
        [p0, p1, p2] \<Rightarrow>
          (case Atoi p0 of
             Inl e \<Rightarrow> Inl (ErrorWrap e ''failed to parse minutes'')
           | Inr min_v \<Rightarrow>
               (case Atoi p1 of
                  Inl e \<Rightarrow> Inl (ErrorWrap e ''failed to parse seconds'')
                | Inr sec \<Rightarrow>
                    if sec > 59 then
                      Inl (ErrorNew ''failed to parse seconds, seconds value can't be more than 59'')
                    else
                      (case Atoi p2 of
                         Inl e \<Rightarrow> Inl (ErrorWrap e ''failed to parse frames value'')
                       | Inr frames \<Rightarrow>
                           if frames > framesPerSecond - 1 then
                             Inl (ErrorNew (''failed to parse frames, frames value can't be more than ''
                                     @ showInt (framesPerSecond - 1)))
                           else Inr (min_v, sec, frames))))
      | _ \<Rightarrow> Inl (ErrorNew ''illegal time format, mm:ss:ff should be''))"

section \<open>The data model\<close>

text \<open>
  The structs of the package. Field names that two structs share carry a suffix here:
  \<open>Min_t\<close> is \<^verbatim>\<open>Time.Min\<close>, \<open>Number_i\<close> and \<open>Time_i\<close> are the fields of \<^verbatim>\<open>Index\<close>,
  \<open>Performer_s\<close>, \<open>Title_s\<close> and \<open>Songwriter_s\<close> those of \<^verbatim>\<open>Sheet\<close>. The slices of
  pointers \<^verbatim>\<open>[]*File\<close> and \<^verbatim>\<open>[]*Track\<close> hold objects that are allocated when they are
  appended and referenced from nowhere else, so they are lists of values; "the current
  track" is the last element of the last element.

  \<^verbatim>\<open>float64\<close> values (durations and positions) are rationals, and the arithmetic of
  \<^verbatim>\<open>Seconds\<close> is exact, where \<^verbatim>\<open>float64\<close> rounds the quotient by 75 and integers
  beyond \<open>2^53\<close>; the product \<^verbatim>\<open>time.Min*60\<close> is taken in 64-bit integers first, as
  the source does before it converts.
\<close>

datatype FileType =
  FileTypeBinary | FileTypeMotorola | FileTypeAiff | FileTypeWave | FileTypeMp3

datatype TrackDataType =
    DataTypeAudio | DataTypeCdg | DataTypeMode1_2048 | DataTypeMode1_2352
  | DataTypeMode2_2336 | DataTypeMode2_2352 | DataTypeCdi_2336 | DataTypeCdi_2352

datatype TrackFlag = TrackFlagDcp | TrackFlag4ch | TrackFlagPre | TrackFlagScms

record Time =
  Min_t :: int
  Sec :: int
  Frames :: int

record Index =
  Number_i :: int
  Time_i :: Time

record Track =
  Number :: int
  DataType :: TrackDataType
  Title :: string
  Performer :: string
  Songwriter :: string
  Flags :: "TrackFlag list"
  Isrc :: string
  Indexes :: "Index list"
  Pregap :: Time
  Postgap :: Time
  StartPosition :: rat
  EndPosition :: rat

record File =
  Name :: string
  Type :: FileType
  Tracks :: "Track list"
  Duration :: rat

record Sheet =
  Catalog :: string
  Performer_s :: string
  Title_s :: string
  Songwriter_s :: string
  Comments :: "string list"
  CdTextFile :: string
  Files :: "File list"

definition zeroTime :: Time where
  "zeroTime = \<lparr>Min_t = 0, Sec = 0, Frames = 0\<rparr>"

definition emptySheet :: Sheet where
  "emptySheet = \<lparr>Catalog = [], Performer_s = [], Title_s = [], Songwriter_s = [],
                  Comments = [], CdTextFile = [], Files = []\<rparr>"

definition wrap64 :: "int \<Rightarrow> int" where
  "wrap64 x = (x + 2 ^ 63) mod 2 ^ 64 - 2 ^ 63"

text \<open>\<^verbatim>\<open>Time.Seconds\<close>.\<close>

definition Seconds :: "Time \<Rightarrow> rat" where
  "Seconds t =
     of_int (wrap64 (Min_t t * 60)) + of_int (Sec t) + of_int (Frames t) / of_int framesPerSecond"

text \<open>
  Modelled from the spec: the method \<^verbatim>\<open>Track.StartTime\<close>, which \<^verbatim>\<open>Parse\<close> calls and the
  sources do not hold. The spec: "\<open>StartTime\<close> is the time of the track's first \<open>Index\<close>",
  and "a track with zero indexes yields a degenerate (zero) start time".
\<close>

definition StartTime :: "Track \<Rightarrow> Time" where
  "StartTime t = (case Indexes t of [] \<Rightarrow> zeroTime | i # _ \<Rightarrow> Time_i i)"

text \<open>
  Modelled from the spec: the helper \<^verbatim>\<open>stringTruncate\<close>, which the handlers of PERFORMER,
  SONGWRITER and TITLE call and the sources do not hold. The spec: "truncated to 80
  characters".
\<close>

definition stringTruncate :: "string \<Rightarrow> nat \<Rightarrow> string" where
  "stringTruncate s n = take n s"

text \<open>\<^verbatim>\<open>getCurrentFile\<close> and \<^verbatim>\<open>getCurrentTrack\<close>; \<open>None\<close> is the nil pointer.\<close>

definition getCurrentFile :: "Sheet \<Rightarrow> File option" where
  "getCurrentFile sheet = (if length (Files sheet) > 0 then Some (last (Files sheet)) else None)"

definition getCurrentTrack :: "Sheet \<Rightarrow> Track option" where
  "getCurrentTrack sheet =
     (case getCurrentFile sheet of
        None \<Rightarrow> None
      | Some file \<Rightarrow> if length (Tracks file) > 0 then Some (last (Tracks file)) else None)"

text \<open>
  A write through the pointer that \<^verbatim>\<open>getCurrentTrack\<close> returned: the last track of the
  last file is replaced.
\<close>

definition updateCurrentTrack :: "(Track \<Rightarrow> Track) \<Rightarrow> Sheet \<Rightarrow> Sheet" where
  "updateCurrentTrack f sheet =
     (let file = last (Files sheet) in
      sheet\<lparr>Files := butlast (Files sheet) @
               [file\<lparr>Tracks := butlast (Tracks file) @ [f (last (Tracks file))]\<rparr>]\<rparr>)"

section \<open>The command handlers\<close>

text \<open>
  A handler has the type \<^verbatim>\<open>func(params []string, sheet *Sheet) error\<close>: it may change the
  sheet and return an error. Here it returns the sheet as it leaves it, and the error.
\<close>

type_synonym commandParser = "string list \<Rightarrow> Sheet \<Rightarrow> Sheet \<times> error option"

text \<open>The verb \<^verbatim>\<open>%s\<close> on a slice of strings: the elements in brackets.\<close>

definition showStrings :: "string list \<Rightarrow> string" where
  "showStrings xs = ''['' @ joinSpace xs @ '']''"

definition parseCatalog :: commandParser where
  "parseCatalog params sheet =
     (case params of
        [] \<Rightarrow> (sheet, Some IndexOutOfRange)
      | num # _ \<Rightarrow>
          if length num = 13 \<and> list_all isDigit num then (sheet\<lparr>Catalog := num\<rparr>, None)
          else (sheet, Some (ErrorNew (showStrings params @ '' is not valid catalog number''))))"

definition parseCdTextFile :: commandParser where
  "parseCdTextFile params sheet =
     (case params of
        [] \<Rightarrow> (sheet, Some IndexOutOfRange)
      | p # _ \<Rightarrow> (sheet\<lparr>CdTextFile := p\<rparr>, None))"

definition parseFileType :: "string \<Rightarrow> error + FileType" where
  "parseFileType t =
     (if t = ''BINARY'' then Inr FileTypeBinary
      else if t = ''MOTOROLA'' then Inr FileTypeMotorola
      else if t = ''AIFF'' then Inr FileTypeAiff
      else if t = ''WAVE'' then Inr FileTypeWave
      else if t = ''MP3'' then Inr FileTypeMp3
      else Inl (ErrorNew (''unknown file type: '' @ t)))"

definition parseFile :: commandParser where
  "parseFile params sheet =
     (case params of
        p0 # p1 # _ \<Rightarrow>
          (case parseFileType p1 of
             Inl e \<Rightarrow> (sheet, Some e)
           | Inr fileType \<Rightarrow>
               (sheet\<lparr>Files := Files sheet @
                  [\<lparr>Name = p0, Type = fileType, Tracks = [], Duration = 0\<rparr>]\<rparr>, None))
      | _ \<Rightarrow> (sheet, Some IndexOutOfRange))"

definition flagParser :: "string \<Rightarrow> error + TrackFlag" where
  "flagParser flag =
     (if flag = ''DCP'' then Inr TrackFlagDcp
      else if flag = ''4CH'' then Inr TrackFlag4ch
      else if flag = ''PRE'' then Inr TrackFlagPre
      else if flag = ''SCMS'' then Inr TrackFlagScms
      else Inl (ErrorNew (''unknown track flag: '' @ flag)))"

text \<open>The loop of \<^verbatim>\<open>parseFlags\<close>: the flags before an unknown one stay appended.\<close>

fun appendFlags :: "string list \<Rightarrow> Sheet \<Rightarrow> Sheet \<times> error option" where
  "appendFlags [] sheet = (sheet, None)"
| "appendFlags (flagStr # rest) sheet =
     (case flagParser flagStr of
        Inl e \<Rightarrow> (sheet, Some e)
      | Inr flag \<Rightarrow>
          appendFlags rest (updateCurrentTrack (\<lambda>t. t\<lparr>Flags := Flags t @ [flag]\<rparr>) sheet))"

definition parseFlags :: commandParser where
  "parseFlags params sheet =
     (case getCurrentTrack sheet of
        None \<Rightarrow> (sheet, Some (ErrorNew ''TRACK command should appears before FLAGS command''))
      | Some track \<Rightarrow> appendFlags params sheet)"

definition parseIndex :: commandParser where
  "parseIndex params sheet =
     (case params of
        p0 # p1 # _ \<Rightarrow>
          (case parseTime p1 of
             Inl e \<Rightarrow> (sheet, Some (ErrorWrap e ''failed to parse index start time''))
           | Inr (min_v, sec, frames) \<Rightarrow>
               (case Atoi p0 of
                  Inl e \<Rightarrow> (sheet, Some (ErrorWrap e ''failed to parse index number''))
                | Inr number \<Rightarrow>
                    if number < 0 \<or> number > 99 then
                      (sheet, Some (ErrorNew ''index number should be in 0..99 interval''))
                    else
                      (case getCurrentTrack sheet of
                         None \<Rightarrow>
                           (sheet, Some (ErrorNew ''TRACK command should appears before INDEX command''))
                       | Some track \<Rightarrow>
                           if length (Indexes track) = 0 \<and> number \<ge> 2 then
                             (sheet, Some (ErrorNew ''first track index should has 0 or 1 index number''))
                           else if length (Indexes track) \<noteq> 0 \<and>
                                   Number_i (last (Indexes track)) + 1 \<noteq> number then
                             (sheet, Some (ErrorNew
                                (''expected '' @ showInt (Number_i (last (Indexes track)) + 1) @
                                 '' index number but '' @ showInt number @ '' recieved'')))
                           else
                             (updateCurrentTrack
                                (\<lambda>t. t\<lparr>Indexes := Indexes t @
                                   [\<lparr>Number_i = number,
                                     Time_i = \<lparr>Min_t = min_v, Sec = sec, Frames = frames\<rparr>\<rparr>]\<rparr>)
                                sheet, None))))
      | _ \<Rightarrow> (sheet, Some IndexOutOfRange))"

text \<open>
  The regular expression of \<^verbatim>\<open>parseIsrc\<close> is
  \<^verbatim>\<open>^[0-9a-zA-z]{5}[0-9]{7}$\<close>, written out: the class of the first five bytes is
  \<^verbatim>\<open>0-9\<close>, \<^verbatim>\<open>a-z\<close> and the range \<^verbatim>\<open>A-z\<close> (0x41 to 0x7A).
\<close>

definition isrcClass :: "char \<Rightarrow> bool" where
  "isrcClass c =
     (isDigit c \<or> (97 \<le> (of_char c :: nat) \<and> (of_char c :: nat) \<le> 122)
                \<or> (65 \<le> (of_char c :: nat) \<and> (of_char c :: nat) \<le> 122))"

definition isrcMatch :: "string \<Rightarrow> bool" where
  "isrcMatch isrc =
     (length isrc = 12 \<and> list_all isrcClass (take 5 isrc) \<and> list_all isDigit (drop 5 isrc))"

definition parseIsrc :: commandParser where
  "parseIsrc params sheet =
     (case params of
        [] \<Rightarrow> (sheet, Some IndexOutOfRange)
      | isrc # _ \<Rightarrow>
          (case getCurrentTrack sheet of
             None \<Rightarrow> (sheet, Some (ErrorNew ''TRACK command should appears before ISRC command''))
           | Some track \<Rightarrow>
               if length (Indexes track) \<noteq> 0 then
                 (sheet, Some (ErrorNew ''ISRC command must be specified before INDEX command''))
               else if \<not> isrcMatch isrc then
                 (sheet, Some (ErrorNew (isrc @ '' is not valid ISRC number'')))
               else (updateCurrentTrack (\<lambda>t. t\<lparr>Isrc := isrc\<rparr>) sheet, None)))"

definition parsePerformer :: commandParser where
  "parsePerformer params sheet =
     (case params of
        [] \<Rightarrow> (sheet, Some IndexOutOfRange)
      | p # _ \<Rightarrow>
          (case getCurrentTrack sheet of
             None \<Rightarrow> (sheet\<lparr>Performer_s := stringTruncate p 80\<rparr>, None)
           | Some track \<Rightarrow>
               (updateCurrentTrack (\<lambda>t. t\<lparr>Performer := stringTruncate p 80\<rparr>) sheet, None)))"

definition parsePostgap :: commandParser where
  "parsePostgap params sheet =
     (case getCurrentTrack sheet of
        None \<Rightarrow> (sheet, Some (ErrorNew ''POSTGAP command must appear after a TRACK command''))
      | Some track \<Rightarrow>
          (case params of
             [] \<Rightarrow> (sheet, Some IndexOutOfRange)
           | p # _ \<Rightarrow>
               (case parseTime p of
                  Inl e \<Rightarrow> (sheet, Some (ErrorWrap e ''failed to parse postgap time''))
                | Inr (min_v, sec, frames) \<Rightarrow>
                    (updateCurrentTrack
                       (\<lambda>t. t\<lparr>Postgap := \<lparr>Min_t = min_v, Sec = sec, Frames = frames\<rparr>\<rparr>)
                       sheet, None))))"

definition parsePregap :: commandParser where
  "parsePregap params sheet =
     (case getCurrentTrack sheet of
        None \<Rightarrow> (sheet, Some (ErrorNew ''PREGAP command must appear after a TRACK command''))
      | Some track \<Rightarrow>
          if length (Indexes track) \<noteq> 0 then
            (sheet, Some (ErrorNew ''PREGAP command must appear before any INDEX command''))
          else
            (case params of
               [] \<Rightarrow> (sheet, Some IndexOutOfRange)
             | p # _ \<Rightarrow>
                 (case parseTime p of
                    Inl e \<Rightarrow> (sheet, Some (ErrorWrap e ''failed to parse pregap time''))
                  | Inr (min_v, sec, frames) \<Rightarrow>
                      (updateCurrentTrack
                         (\<lambda>t. t\<lparr>Pregap := \<lparr>Min_t = min_v, Sec = sec, Frames = frames\<rparr>\<rparr>)
                         sheet, None))))"

definition parseRem :: commandParser where
  "parseRem params sheet = (sheet\<lparr>Comments := Comments sheet @ [joinSpace params]\<rparr>, None)"

definition parseSongWriter :: commandParser where
  "parseSongWriter params sheet =
     (case params of
        [] \<Rightarrow> (sheet, Some IndexOutOfRange)
      | p # _ \<Rightarrow>
          (case getCurrentTrack sheet of
             None \<Rightarrow> (sheet\<lparr>Songwriter_s := stringTruncate p 80\<rparr>, None)
           | Some track \<Rightarrow>
               (updateCurrentTrack (\<lambda>t. t\<lparr>Songwriter := stringTruncate p 80\<rparr>) sheet, None)))"

definition parseTitle :: commandParser where
  "parseTitle params sheet =
     (case params of
        [] \<Rightarrow> (sheet, Some IndexOutOfRange)
      | p # _ \<Rightarrow>
          (case getCurrentTrack sheet of
             None \<Rightarrow> (sheet\<lparr>Title_s := stringTruncate p 80\<rparr>, None)
           | Some track \<Rightarrow>
               (updateCurrentTrack (\<lambda>t. t\<lparr>Title := stringTruncate p 80\<rparr>) sheet, None)))"

definition parseDataType :: "string \<Rightarrow> error + TrackDataType" where
  "parseDataType t =
     (if t = ''AUDIO'' then Inr DataTypeAudio
      else if t = ''CDG'' then Inr DataTypeCdg
      else if t = ''MODE1/2048'' then Inr DataTypeMode1_2048
      else if t = ''MODE1/2352'' then Inr DataTypeMode1_2352
      else if t = ''MODE2/2336'' then Inr DataTypeMode2_2336
      else if t = ''MODE2/2352'' then Inr DataTypeMode2_2352
      else if t = ''CDI/2336'' then Inr DataTypeCdi_2336
      else if t = ''CDI/2352'' then Inr DataTypeCdi_2352
      else Inl (ErrorNew (''unknown track datatype: '' @ t)))"

text \<open>\<^verbatim>\<open>new(Track)\<close> with the number and the data type set.\<close>

definition newTrack :: "int \<Rightarrow> TrackDataType \<Rightarrow> Track" where
  "newTrack number dataType =
     \<lparr>Number = number, DataType = dataType, Title = [], Performer = [], Songwriter = [],
      Flags = [], Isrc = [], Indexes = [], Pregap = zeroTime, Postgap = zeroTime,
      StartPosition = 0, EndPosition = 0\<rparr>"

definition parseTrack :: commandParser where
  "parseTrack params sheet =
     (if length (Files sheet) = 0 then
        (sheet, Some (ErrorNew ''unexpected TRACK command, FILE command expected first''))
      else
        (case params of
           numberStr # dataTypeStr # _ \<Rightarrow>
             (case Atoi numberStr of
                Inl e \<Rightarrow> (sheet, Some (ErrorWrap e ''failed to parse track number parameter''))
              | Inr number \<Rightarrow>
                  if number < 1 then
                    (sheet, Some (ErrorNew
                       ''failed to parse track number parameter. value should be in 1..99 range''))
                  else
                    (case parseDataType dataTypeStr of
                       Inl e \<Rightarrow> (sheet, Some e)
                     | Inr dataType \<Rightarrow>
                         (let file = last (Files sheet) in
                          if length (Tracks file) > 0 \<and>
                             Number (last (Tracks file)) \<noteq> number - 1 then
                            (sheet, Some (ErrorNew
                               (''expected track number '' @ showInt (number - 1) @ '', but '' @
                                showInt number @ '' recieved'')))
                          else
                            (sheet\<lparr>Files := butlast (Files sheet) @
                               [file\<lparr>Tracks := Tracks file @ [newTrack number dataType]\<rparr>]\<rparr>,
                             None))))
         | _ \<Rightarrow> (sheet, Some IndexOutOfRange)))"

section \<open>Parse\<close>

text \<open>\<^verbatim>\<open>parsersMap\<close>: the expected number of parameters (\<open>-1\<close> for any) and the handler.\<close>

definition parsersMap :: "string \<Rightarrow> (int \<times> commandParser) option" where
  "parsersMap cmd =
     (if cmd = ''CATALOG'' then Some (1, parseCatalog)
      else if cmd = ''CDTEXTFILE'' then Some (1, parseCdTextFile)
      else if cmd = ''FILE'' then Some (2, parseFile)
      else if cmd = ''FLAGS'' then Some (-1, parseFlags)
      else if cmd = ''INDEX'' then Some (2, parseIndex)
      else if cmd = ''ISRC'' then Some (1, parseIsrc)
      else if cmd = ''PERFORMER'' then Some (1, parsePerformer)
      else if cmd = ''POSTGAP'' then Some (1, parsePostgap)
      else if cmd = ''PREGAP'' then Some (1, parsePregap)
      else if cmd = ''REM'' then Some (-1, parseRem)
      else if cmd = ''SONGWRITER'' then Some (1, parseSongWriter)
      else if cmd = ''TITLE'' then Some (1, parseTitle)
      else if cmd = ''TRACK'' then Some (2, parseTrack)
      else None)"

text \<open>
  The errors of \<^verbatim>\<open>Parse\<close>. \<open>LineError n f\<close> is one of the four \<^verbatim>\<open>fmt.Errorf("line %d: ...")\<close>
  with the line number \<open>n\<close>; \<open>ReadError e\<close> is the error of the reader, returned as it is;
  \<open>Panicked\<close> is a run-time panic of a handler.
\<close>

datatype failure =
    TokenizeFailed error
  | UnknownCommand string
  | ParamCount string nat int
  | CommandFailed string error

datatype parse_error = ReadError error | LineError nat failure | Panicked

text \<open>The body of the loop of \<^verbatim>\<open>Parse\<close> from the call of \<^verbatim>\<open>parseCommand\<close> on.\<close>

definition processLine :: "nat \<Rightarrow> string \<Rightarrow> Sheet \<Rightarrow> parse_error + Sheet" where
  "processLine lineNumber line sheet =
     (case parseCommand line of
        (cmd, params, Some err) \<Rightarrow> Inl (LineError lineNumber (TokenizeFailed err))
      | (cmd, params, None) \<Rightarrow>
          (case parsersMap cmd of
             None \<Rightarrow> Inl (LineError lineNumber (UnknownCommand cmd))
           | Some (paramsExpected, parser) \<Rightarrow>
               if paramsExpected \<noteq> - 1 \<and> paramsExpected \<noteq> int (length params) then
                 Inl (LineError lineNumber (ParamCount cmd (length params) paramsExpected))
               else
                 (case parser params sheet of
                    (sheet', Some err) \<Rightarrow>
                      if err = IndexOutOfRange then Inl Panicked
                      else Inl (LineError lineNumber (CommandFailed cmd err))
                  | (sheet', None) \<Rightarrow> Inr sheet')))"

text \<open>
  The loop of \<^verbatim>\<open>Parse\<close>. The reader is the list of what \<^verbatim>\<open>rd.ReadLine()\<close> returns before
  \<^verbatim>\<open>io.EOF\<close>: a line (\<open>Inr\<close>) or an error (\<open>Inl\<close>). \<open>removeMn\<close> is the transformer of
  \<^verbatim>\<open>golang.org/x/text\<close> that removes the runes of the class Mn from a line.
\<close>

fun parseLines ::
  "(string \<Rightarrow> string) \<Rightarrow> nat \<Rightarrow> Sheet \<Rightarrow> (error + string) list \<Rightarrow> parse_error + Sheet" where
  "parseLines removeMn lineNumber sheet [] = Inr sheet"
| "parseLines removeMn lineNumber sheet (Inl err # rest) = Inl (ReadError err)"
| "parseLines removeMn lineNumber sheet (Inr buf # rest) =
     (let line = TrimSpace (removeMn buf) in
      if length line = 0 then parseLines removeMn lineNumber sheet rest
      else
        (case processLine (lineNumber + 1) line sheet of
           Inl e \<Rightarrow> Inl e
         | Inr sheet' \<Rightarrow> parseLines removeMn (lineNumber + 1) sheet' rest))"

text \<open>
  The second loop of \<^verbatim>\<open>Parse\<close>: \<open>f\<close> is the file with its duration assigned, \<open>ti\<close> the
  position of the track \<open>t\<close> in it. The loop writes only the two positions of a track, and
  reads of the following track only its pregap and its indexes.
\<close>

definition resolveTrack :: "File \<Rightarrow> nat \<Rightarrow> Track \<Rightarrow> Track" where
  "resolveTrack f ti t =
     t\<lparr>StartPosition := Seconds (StartTime t),
       EndPosition :=
         (if length (Tracks f) > ti + 1 then
            (let nt = Tracks f ! (ti + 1) in
             if Seconds (Pregap nt) = 0 then Seconds (StartTime nt) else Seconds (Pregap nt))
          else Duration f)\<rparr>"

definition resolveFile :: "rat list \<Rightarrow> nat \<Rightarrow> File \<Rightarrow> File" where
  "resolveFile durations fi f0 =
     (let f = (if length durations > fi then f0\<lparr>Duration := durations ! fi\<rparr> else f0) in
      f\<lparr>Tracks := map (\<lambda>(ti, t). resolveTrack f ti t) (enumerate 0 (Tracks f))\<rparr>)"

definition resolvePositions :: "rat list \<Rightarrow> Sheet \<Rightarrow> Sheet" where
  "resolvePositions durations sheet =
     sheet\<lparr>Files := map (\<lambda>(fi, f). resolveFile durations fi f) (enumerate 0 (Files sheet))\<rparr>"

text \<open>\<^verbatim>\<open>Parse\<close> returns a pointer to a sheet and an error; \<open>None\<close> is nil.\<close>

definition Parse ::
  "(string \<Rightarrow> string) \<Rightarrow> (error + string) list \<Rightarrow> rat list \<Rightarrow> Sheet option \<times> parse_error option"
  where
  "Parse removeMn reader durations =
     (case parseLines removeMn 0 emptySheet reader of
        Inl e \<Rightarrow> (None, Some e)
      | Inr sheet \<Rightarrow> (Some (resolvePositions durations sheet), None))"

section \<open>Sheets used as examples, and predicates of the claims\<close>

text \<open>The sheet after \<^verbatim>\<open>FILE "test.wav" WAVE\<close>.\<close>

definition sheetFile :: Sheet where
  "sheetFile =
     emptySheet\<lparr>Files := [\<lparr>Name = ''test.wav'', Type = FileTypeWave, Tracks = [], Duration = 0\<rparr>]\<rparr>"

text \<open>The sheet after \<^verbatim>\<open>TRACK 01 AUDIO\<close> on top of that.\<close>

definition sheetTrack :: Sheet where
  "sheetTrack =
     emptySheet\<lparr>Files := [\<lparr>Name = ''test.wav'', Type = FileTypeWave,
                            Tracks = [newTrack 1 DataTypeAudio], Duration = 0\<rparr>]\<rparr>"

text \<open>The sheet after \<^verbatim>\<open>INDEX 01 00:00:00\<close> on top of that.\<close>

definition sheetIndexed :: Sheet where
  "sheetIndexed =
     emptySheet\<lparr>Files := [\<lparr>Name = ''test.wav'', Type = FileTypeWave,
        Tracks = [(newTrack 1 DataTypeAudio)\<lparr>Indexes := [\<lparr>Number_i = 1, Time_i = zeroTime\<rparr>]\<rparr>],
        Duration = 0\<rparr>]\<rparr>"

text \<open>Every number of the list is the one before it plus one.\<close>

fun ascendingByOne :: "int list \<Rightarrow> bool" where
  "ascendingByOne [] = True"
| "ascendingByOne [x] = True"
| "ascendingByOne (x # y # ys) = (y = x + 1 \<and> ascendingByOne (y # ys))"

text \<open>
  The track numbers of a file are \<open>k, k + 1, ..., k + N - 1\<close> for some \<open>k \<ge> 1\<close>.
\<close>

definition trackNumbersOk :: "File \<Rightarrow> bool" where
  "trackNumbersOk f =
     (case map Number (Tracks f) of
        [] \<Rightarrow> True
      | n # ns \<Rightarrow> 1 \<le> n \<and> ascendingByOne (n # ns))"

subsection \<open>The effect of a command on the files\<close>

text \<open>
  What a command that succeeds does to the list of files, for the invariants of the
  sheet. \<open>trackReplaced F F'\<close>: the last track of the last file is replaced by a track
  with the same number. \<open>lineEffect cmd sheet sheet'\<close>: the files are as before, or FILE
  has appended a file without tracks and with duration 0, or TRACK has appended a track to
  the last file, or the last track of the last file is replaced.
\<close>

definition trackReplaced :: "File list \<Rightarrow> File list \<Rightarrow> bool" where
  "trackReplaced F F' =
     (F \<noteq> [] \<and> Tracks (last F) \<noteq> [] \<and>
      (\<exists>t'. Number t' = Number (last (Tracks (last F))) \<and>
            F' = butlast F @ [(last F)\<lparr>Tracks := butlast (Tracks (last F)) @ [t']\<rparr>]))"

definition lineEffect :: "string \<Rightarrow> Sheet \<Rightarrow> Sheet \<Rightarrow> bool" where
  "lineEffect cmd sheet sheet' =
     ((cmd \<noteq> ''FILE'' \<and> cmd \<noteq> ''TRACK'' \<and> Files sheet' = Files sheet)
    \<or> (cmd = ''FILE'' \<and>
         (\<exists>name ty. Files sheet' =
            Files sheet @ [\<lparr>Name = name, Type = ty, Tracks = [], Duration = 0\<rparr>]))
    \<or> (cmd = ''TRACK'' \<and> Files sheet \<noteq> [] \<and>
         (\<exists>n dt. 1 \<le> n \<and>
            (Tracks (last (Files sheet)) = [] \<or>
             n = Number (last (Tracks (last (Files sheet)))) + 1) \<and>
            Files sheet' = butlast (Files sheet) @
              [(last (Files sheet))\<lparr>Tracks := Tracks (last (Files sheet)) @ [newTrack n dt]\<rparr>]))
    \<or> (cmd \<noteq> ''FILE'' \<and> cmd \<noteq> ''TRACK'' \<and> trackReplaced (Files sheet) (Files sheet')))"

subsection \<open>The cue sheet of the example\<close>

text \<open>The line \<^verbatim>\<open>FILE "test.wav" WAVE\<close>, and the cue sheet of the example.\<close>

definition fileLine :: string where
  "fileLine = ''FILE '' @ [dquote] @ ''test.wav'' @ [dquote] @ '' WAVE''"

definition exampleLines :: "(error + string) list" where
  "exampleLines =
     [Inr fileLine,
      Inr ''  TRACK 01 AUDIO'',
      Inr ''    INDEX 01 00:00:00'',
      Inr '''',
      Inr ''  TRACK 02 AUDIO'',
      Inr ''    INDEX 01 03:00:00'']"

text \<open>The sheet after its fourth line, and after its last.\<close>

definition sheetTwoTracks :: Sheet where
  "sheetTwoTracks =
     emptySheet\<lparr>Files := [\<lparr>Name = ''test.wav'', Type = FileTypeWave,
        Tracks = [(newTrack 1 DataTypeAudio)\<lparr>Indexes := [\<lparr>Number_i = 1, Time_i = zeroTime\<rparr>]\<rparr>,
                  newTrack 2 DataTypeAudio],
        Duration = 0\<rparr>]\<rparr>"

definition exampleParsed :: Sheet where
  "exampleParsed =
     emptySheet\<lparr>Files := [\<lparr>Name = ''test.wav'', Type = FileTypeWave,
        Tracks = [(newTrack 1 DataTypeAudio)\<lparr>Indexes := [\<lparr>Number_i = 1, Time_i = zeroTime\<rparr>]\<rparr>,
                  (newTrack 2 DataTypeAudio)\<lparr>Indexes :=
                     [\<lparr>Number_i = 1, Time_i = \<lparr>Min_t = 3, Sec = 0, Frames = 0\<rparr>\<rparr>]\<rparr>],
        Duration = 0\<rparr>]\<rparr>"

subsection \<open>Lines that count\<close>



subsection \<open>The states of the tokenizer\<close>

text \<open>
  \<open>scanned line\<close>: the states the parameter loop of \<^verbatim>\<open>parseCommand\<close> goes through on a
  line (none when the line is a command alone). \<open>quoteInMiddle\<close>: the loop is outside
  quote mode, the current parameter is not empty and the byte at \<open>i\<close> is a quote
  character. \<open>danglingBackslash\<close>: the byte at \<open>i\<close> is a backslash and is the last one.
  \<open>quoteState\<close>: the values \<^verbatim>\<open>quotedChar\<close> takes, 0 or a quote character.
\<close>

definition scanned :: "string \<Rightarrow> config list" where
  "scanned line =
     (case paramText line of None \<Rightarrow> [] | Some pt \<Rightarrow> visited (nul, [], [], pt))"

definition quoteInMiddle :: "config \<Rightarrow> bool" where
  "quoteInMiddle cfg =
     (case cfg of (quotedChar, param, params, rest) \<Rightarrow>
        quotedChar = nul \<and> param \<noteq> [] \<and> (case rest of [] \<Rightarrow> False | c # _ \<Rightarrow> isQuoteChar c))"

definition danglingBackslash :: "config \<Rightarrow> bool" where
  "danglingBackslash cfg =
     (case cfg of (quotedChar, param, params, rest) \<Rightarrow> rest = [backslash])"

definition quoteState :: "char \<Rightarrow> bool" where
  "quoteState q = (q = nul \<or> isQuoteChar q)"

text \<open>
  The line \<^verbatim>\<open>CMD a"b\<close>, the line \<^verbatim>\<open>CMD a\<close> followed by one backslash, and the line
  \<^verbatim>\<open>CMD a\<close> followed by two backslashes.
\<close>

definition quoteLine :: string where
  "quoteLine = ''CMD a'' @ [dquote] @ ''b''"

definition backslashLine :: string where
  "backslashLine = ''CMD a'' @ [backslash]"

definition escapedBackslashLine :: string where
  "escapedBackslashLine = ''CMD a'' @ [backslash, backslash]"

text \<open>
  The parameter texts after an opening quote \<^verbatim>\<open>abc def\<close> and \<^verbatim>\<open>abc\<close> followed by a
  backslash, and the line \<^verbatim>\<open>TITLE "abc def\<close>.
\<close>

definition unclosedText :: string where
  "unclosedText = ''abc def''"

definition unclosedLine :: string where
  "unclosedLine = ''TITLE '' @ [dquote] @ unclosedText"

definition unclosedDangling :: string where
  "unclosedDangling = ''abc'' @ [backslash]"

section \<open>Evaluation on the examples\<close>

lemma Atoi_small:
  "Atoi ''01'' = Inr 1" "Atoi ''03'' = Inr 3" "Atoi ''05'' = Inr 5" "Atoi ''00'' = Inr 0"
  "Atoi ''-5'' = Inr (- 5)" "Atoi ''10'' = Inr 10" "Atoi ''02'' = Inr 2"
  by (simp_all add: Atoi_def isDigit_def maxUint64_def)

lemma parseTime_examples:
  "parseTime ''00:00:00'' = Inr (0, 0, 0)"
  "parseTime ''00:10:00'' = Inr (0, 10, 0)"
  "parseTime ''01:-5:00'' = Inr (1, - 5, 0)"
  "parseTime ''00:-5:00'' = Inr (0, - 5, 0)"
  "parseTime ''00:02:00'' = Inr (0, 2, 0)"
  by (simp_all add: parseTime_def Atoi_small framesPerSecond_def)

lemma getCurrentTrack_examples:
  "getCurrentTrack emptySheet = None"
  "getCurrentTrack sheetFile = None"
  "getCurrentTrack sheetTrack = Some (newTrack 1 DataTypeAudio)"
  "getCurrentTrack sheetIndexed =
     Some ((newTrack 1 DataTypeAudio)\<lparr>Indexes := [\<lparr>Number_i = 1, Time_i = zeroTime\<rparr>]\<rparr>)"
  by (simp_all add: getCurrentTrack_def getCurrentFile_def sheetFile_def sheetTrack_def
        sheetIndexed_def emptySheet_def)

lemma showNat_small: "n < 10 \<Longrightarrow> showNat n = [digitChar n]"
  by (subst showNat.simps) simp

lemma showInt_digit:
  "showInt 0 = ''0''" "showInt 1 = ''1''" "showInt 2 = ''2''" "showInt 3 = ''3''"
  "showInt 4 = ''4''" "showInt 5 = ''5''"
  by (simp_all add: showInt_def showNat_small digitChar_def)

section \<open>Facts about the current track\<close>

lemma getCurrentTrack_update:
  "getCurrentTrack sheet = Some track \<Longrightarrow>
   getCurrentTrack (updateCurrentTrack f sheet) = Some (f track)"
  by (auto simp: getCurrentTrack_def getCurrentFile_def updateCurrentTrack_def Let_def
           split: if_splits)

lemma ascendingByOne_snoc:
  "ascendingByOne (ns @ [n]) = (ascendingByOne ns \<and> (ns = [] \<or> n = last ns + 1))"
  by (induction ns rule: ascendingByOne.induct) simp_all

lemma trackNumbersOk_snoc:
  assumes "trackNumbersOk f" "1 \<le> n" "Tracks f = [] \<or> n = Number (last (Tracks f)) + 1"
  shows "trackNumbersOk (f\<lparr>Tracks := Tracks f @ [t\<lparr>Number := n\<rparr>]\<rparr>)"
proof (cases "Tracks f")
  case Nil
  with assms show ?thesis by (simp add: trackNumbersOk_def)
next
  case (Cons a as)
  let ?ns = "map Number (Tracks f)"
  from assms(1) Cons have c: "ascendingByOne ?ns" and a1: "1 \<le> Number a"
    by (simp_all add: trackNumbersOk_def)
  have l: "last ?ns = Number (last (Tracks f))" using Cons by (simp add: last_map)
  have ne: "?ns \<noteq> []" using Cons by simp
  have "ascendingByOne (?ns @ [n])"
    unfolding ascendingByOne_snoc using c l ne assms(3) Cons by simp
  then have "ascendingByOne (Number a # map Number as @ [n])" using Cons by simp
  with a1 Cons show ?thesis by (simp add: trackNumbersOk_def)
qed

section \<open>C2: the numbers of the indexes of a track\<close>

lemma parseIndex_eq:
  assumes "getCurrentTrack sheet = Some track"
      and "parseTime timeStr = Inr (m, s, f)"
      and "Atoi numStr = Inr number"
  shows "parseIndex [numStr, timeStr] sheet =
     (if number < 0 \<or> number > 99 then
        (sheet, Some (ErrorNew ''index number should be in 0..99 interval''))
      else if Indexes track = [] \<and> number \<ge> 2 then
        (sheet, Some (ErrorNew ''first track index should has 0 or 1 index number''))
      else if Indexes track \<noteq> [] \<and> Number_i (last (Indexes track)) + 1 \<noteq> number then
        (sheet, Some (ErrorNew
           (''expected '' @ showInt (Number_i (last (Indexes track)) + 1) @
            '' index number but '' @ showInt number @ '' recieved'')))
      else
        (updateCurrentTrack
           (\<lambda>t. t\<lparr>Indexes := Indexes t @
              [\<lparr>Number_i = number, Time_i = \<lparr>Min_t = m, Sec = s, Frames = f\<rparr>\<rparr>]\<rparr>)
           sheet, None))"
  using assms by (simp add: parseIndex_def)

text \<open>
  Claim C2 quotes the error of \<^verbatim>\<open>INDEX 03\<close> after \<^verbatim>\<open>INDEX 01\<close> as "expected index
  number 2 but 3 received". The handler's format is
  \<^verbatim>\<open>"expected %d index number but %d recieved"\<close>: the index is refused, with another text.
\<close>

theorem parseIndex_message_counterexample:
  "snd (parseIndex [''01'', ''00:00:00''] sheetTrack) = None \<and>
   fst (parseIndex [''01'', ''00:00:00''] sheetTrack) = sheetIndexed \<and>
   snd (parseIndex [''03'', ''00:10:00''] sheetIndexed) \<noteq>
     Some (ErrorNew ''expected index number 2 but 3 received'')"
  by (simp add: parseIndex_def parseTime_examples Atoi_small getCurrentTrack_examples
        showInt_digit)
     (simp add: updateCurrentTrack_def sheetTrack_def sheetIndexed_def emptySheet_def
        newTrack_def zeroTime_def)

text \<open>
  C2, amended. On a current track, with a time that \<^verbatim>\<open>parseTime\<close> reads and a number
  that \<^verbatim>\<open>Atoi\<close> reads, INDEX succeeds exactly when the number is in \<open>0..99\<close> and is 0 or
  1 for the first index of the track, the number of the last index plus one otherwise.
  When it fails the sheet is as before; a number in \<open>0..99\<close> that is not the successor
  fails with "expected E index number but N recieved", \<open>E\<close> the successor and \<open>N\<close> the
  number given. When it succeeds the index is appended to the current track.
\<close>

theorem parseIndex_sequence:
  assumes "getCurrentTrack sheet = Some track"
      and "parseTime timeStr = Inr (m, s, f)"
      and "Atoi numStr = Inr number"
  shows "(snd (parseIndex [numStr, timeStr] sheet) = None) =
           (0 \<le> number \<and> number \<le> 99 \<and>
            (if Indexes track = [] then number \<le> 1
             else number = Number_i (last (Indexes track)) + 1))
       \<and> (snd (parseIndex [numStr, timeStr] sheet) \<noteq> None \<longrightarrow>
            fst (parseIndex [numStr, timeStr] sheet) = sheet)
       \<and> (0 \<le> number \<and> number \<le> 99 \<and> Indexes track \<noteq> [] \<and>
          number \<noteq> Number_i (last (Indexes track)) + 1 \<longrightarrow>
            snd (parseIndex [numStr, timeStr] sheet) =
              Some (ErrorNew (''expected '' @ showInt (Number_i (last (Indexes track)) + 1) @
                              '' index number but '' @ showInt number @ '' recieved'')))
       \<and> (snd (parseIndex [numStr, timeStr] sheet) = None \<longrightarrow>
            getCurrentTrack (fst (parseIndex [numStr, timeStr] sheet)) =
              Some (track\<lparr>Indexes := Indexes track @
                      [\<lparr>Number_i = number, Time_i = \<lparr>Min_t = m, Sec = s, Frames = f\<rparr>\<rparr>]\<rparr>))"
  unfolding parseIndex_eq [OF assms]
  using assms(1) by (auto simp: getCurrentTrack_update)

text \<open>The theorem at \<^verbatim>\<open>INDEX 03 00:10:00\<close> after \<^verbatim>\<open>INDEX 01 00:00:00\<close>.\<close>

theorem parseIndex_sequence_witness:
  "parseIndex [''03'', ''00:10:00''] sheetIndexed =
     (sheetIndexed, Some (ErrorNew ''expected 2 index number but 3 recieved''))"
  using parseIndex_sequence [OF getCurrentTrack_examples(4) parseTime_examples(2) Atoi_small(2)]
  by (simp add: prod_eq_iff showInt_digit)

section \<open>C3: the pattern of ISRC\<close>

text \<open>
  Claim C3 says that ISRC accepts exactly the values made of five alphanumeric characters
  and seven digits. The class of the first five characters in the handler's regular
  expression is \<^verbatim>\<open>[0-9a-zA-z]\<close>, with the range \<^verbatim>\<open>A-z\<close> where \<^verbatim>\<open>A-Z\<close> is meant; the
  range holds the six characters between \<^verbatim>\<open>Z\<close> and \<^verbatim>\<open>a\<close>, the underscore among them. On a
  track without indexes the handler accepts \<^verbatim>\<open>AB_CD1234567\<close> and stores it.
\<close>

theorem parseIsrc_accepts_underscore:
  "snd (parseIsrc [''AB_CD1234567''] sheetTrack) = None \<and>
   map Isrc (Tracks (last (Files (fst (parseIsrc [''AB_CD1234567''] sheetTrack))))) =
     [''AB_CD1234567'']"
  by (simp add: parseIsrc_def getCurrentTrack_examples)
     (simp add: newTrack_def isrcMatch_def isrcClass_def isDigit_def updateCurrentTrack_def
        sheetTrack_def emptySheet_def)

section \<open>C5: ISRC and PREGAP after an INDEX\<close>

text \<open>
  C5. When the current track has an index, ISRC and PREGAP return an error that names the
  command, and the sheet they leave is the sheet they were given: no field of the track
  has changed.
\<close>

theorem isrc_pregap_after_index:
  assumes "getCurrentTrack sheet = Some track" and "Indexes track \<noteq> []"
  shows "parseIsrc [isrc] sheet =
           (sheet, Some (ErrorNew ''ISRC command must be specified before INDEX command''))
       \<and> parsePregap [tm] sheet =
           (sheet, Some (ErrorNew ''PREGAP command must appear before any INDEX command''))"
  using assms by (simp add: parseIsrc_def parsePregap_def)

text \<open>The theorem on the sheet whose track has \<^verbatim>\<open>INDEX 01 00:00:00\<close>.\<close>

theorem isrc_pregap_after_index_witness:
  "parseIsrc [''ABCDE1234567''] sheetIndexed =
     (sheetIndexed, Some (ErrorNew ''ISRC command must be specified before INDEX command''))
   \<and> parsePregap [''00:02:00''] sheetIndexed =
     (sheetIndexed, Some (ErrorNew ''PREGAP command must appear before any INDEX command''))"
proof -
  have "Indexes ((newTrack 1 DataTypeAudio)\<lparr>Indexes := [\<lparr>Number_i = 1, Time_i = zeroTime\<rparr>]\<rparr>) \<noteq> []"
    by simp
  from isrc_pregap_after_index [OF getCurrentTrack_examples(4) this] show ?thesis .
qed

section \<open>C9: what the time parser accepts\<close>

lemma parseTime_Inr_iff:
  "(parseTime str = Inr (m, s, f)) =
     (\<exists>p0 p1 p2. splitColon str = [p0, p1, p2] \<and> Atoi p0 = Inr m \<and> Atoi p1 = Inr s \<and>
        Atoi p2 = Inr f \<and> s \<le> 59 \<and> f \<le> 74)"
  by (auto simp: parseTime_def framesPerSecond_def split: list.splits sum.splits)

lemma Seconds_negative: "Seconds \<lparr>Min_t = 0, Sec = - 5, Frames = 0\<rparr> = - 5"
  by (simp add: Seconds_def wrap64_def framesPerSecond_def)

lemma negative_index:
  "getCurrentTrack (fst (parseIndex [''01'', ''00:-5:00''] sheetTrack)) =
     Some ((newTrack 1 DataTypeAudio)\<lparr>Indexes :=
        [\<lparr>Number_i = 1, Time_i = \<lparr>Min_t = 0, Sec = - 5, Frames = 0\<rparr>\<rparr>]\<rparr>)"
  by (simp add: parseIndex_def parseTime_examples Atoi_small getCurrentTrack_examples
        getCurrentTrack_update newTrack_def)

lemma negative_pregap:
  "getCurrentTrack (fst (parsePregap [''00:-5:00''] sheetTrack)) =
     Some ((newTrack 1 DataTypeAudio)\<lparr>Pregap := \<lparr>Min_t = 0, Sec = - 5, Frames = 0\<rparr>\<rparr>)"
  by (simp add: parsePregap_def parseTime_examples getCurrentTrack_examples
        getCurrentTrack_update newTrack_def)

lemma negative_postgap:
  "getCurrentTrack (fst (parsePostgap [''00:-5:00''] sheetTrack)) =
     Some ((newTrack 1 DataTypeAudio)\<lparr>Postgap := \<lparr>Min_t = 0, Sec = - 5, Frames = 0\<rparr>\<rparr>)"
  by (simp add: parsePostgap_def parseTime_examples getCurrentTrack_examples
        getCurrentTrack_update newTrack_def)

text \<open>
  C9. \<^verbatim>\<open>parseTime\<close> returns the three numbers exactly when the string splits at its
  colons into three parts, \<^verbatim>\<open>Atoi\<close> reads each of them, the seconds are at most 59 and
  the frames at most 74; there is no lower bound. \<^verbatim>\<open>Atoi\<close> reads \<^verbatim>\<open>-5\<close>, so
  \<^verbatim>\<open>01:-5:00\<close> is accepted, and INDEX, PREGAP and POSTGAP with \<^verbatim>\<open>00:-5:00\<close> store a time
  with a negative field, whose \<^verbatim>\<open>Seconds()\<close> is \<open>-5\<close>.
\<close>

theorem parseTime_accepts_negative:
  "(parseTime str = Inr (m, s, f)) =
     (\<exists>p0 p1 p2. splitColon str = [p0, p1, p2] \<and> Atoi p0 = Inr m \<and> Atoi p1 = Inr s \<and>
        Atoi p2 = Inr f \<and> s \<le> 59 \<and> f \<le> 74)
   \<and> Atoi ''-5'' = Inr (- 5)
   \<and> parseTime ''01:-5:00'' = Inr (1, - 5, 0)
   \<and> getCurrentTrack (fst (parseIndex [''01'', ''00:-5:00''] sheetTrack)) =
       Some ((newTrack 1 DataTypeAudio)\<lparr>Indexes :=
          [\<lparr>Number_i = 1, Time_i = \<lparr>Min_t = 0, Sec = - 5, Frames = 0\<rparr>\<rparr>]\<rparr>)
   \<and> getCurrentTrack (fst (parsePregap [''00:-5:00''] sheetTrack)) =
       Some ((newTrack 1 DataTypeAudio)\<lparr>Pregap := \<lparr>Min_t = 0, Sec = - 5, Frames = 0\<rparr>\<rparr>)
   \<and> getCurrentTrack (fst (parsePostgap [''00:-5:00''] sheetTrack)) =
       Some ((newTrack 1 DataTypeAudio)\<lparr>Postgap := \<lparr>Min_t = 0, Sec = - 5, Frames = 0\<rparr>\<rparr>)
   \<and> Seconds \<lparr>Min_t = 0, Sec = - 5, Frames = 0\<rparr> = - 5"
  using parseTime_Inr_iff [of str m s f] Atoi_small(5) parseTime_examples(3)
    negative_index negative_pregap negative_postgap Seconds_negative
  by blast

section \<open>What a command does to the files of the sheet\<close>

lemma getCurrentTrack_Some:
  "getCurrentTrack s = Some t \<Longrightarrow>
   Files s \<noteq> [] \<and> Tracks (last (Files s)) \<noteq> [] \<and> t = last (Tracks (last (Files s)))"
  by (auto simp: getCurrentTrack_def getCurrentFile_def split: if_splits)

lemma trackReplaced_update:
  assumes "getCurrentTrack s = Some t" and "Number (g t) = Number t"
  shows "trackReplaced (Files s) (Files (updateCurrentTrack g s))"
proof -
  from getCurrentTrack_Some [OF assms(1)]
  have ne: "Files s \<noteq> []" "Tracks (last (Files s)) \<noteq> []"
    and t: "t = last (Tracks (last (Files s)))" by simp_all
  have "Files (updateCurrentTrack g s) =
        butlast (Files s) @
          [(last (Files s))\<lparr>Tracks := butlast (Tracks (last (Files s))) @ [g t]\<rparr>]"
    by (simp add: updateCurrentTrack_def Let_def t)
  moreover have "Number (g t) = Number (last (Tracks (last (Files s))))"
    using assms(2) t by simp
  ultimately show ?thesis
    unfolding trackReplaced_def using ne by blast
qed

lemma trackReplaced_trans:
  assumes "trackReplaced F G" and "trackReplaced G H"
  shows "trackReplaced F H"
proof -
  from assms(1) obtain t1 where ne: "F \<noteq> []" "Tracks (last F) \<noteq> []"
    and n1: "Number t1 = Number (last (Tracks (last F)))"
    and G: "G = butlast F @ [(last F)\<lparr>Tracks := butlast (Tracks (last F)) @ [t1]\<rparr>]"
    unfolding trackReplaced_def by blast
  from assms(2) obtain t2 where n2: "Number t2 = Number (last (Tracks (last G)))"
    and H: "H = butlast G @ [(last G)\<lparr>Tracks := butlast (Tracks (last G)) @ [t2]\<rparr>]"
    unfolding trackReplaced_def by blast
  have "H = butlast F @ [(last F)\<lparr>Tracks := butlast (Tracks (last F)) @ [t2]\<rparr>]"
    unfolding H by (simp add: G)
  moreover have "Number t2 = Number (last (Tracks (last F)))"
    using n2 n1 by (simp add: G)
  ultimately show ?thesis
    unfolding trackReplaced_def using ne by blast
qed

lemma effect_catalog: "parseCatalog ps s = (s', None) \<Longrightarrow> Files s' = Files s"
  by (auto simp: parseCatalog_def split: list.splits if_splits)

lemma effect_cdtext: "parseCdTextFile ps s = (s', None) \<Longrightarrow> Files s' = Files s"
  by (auto simp: parseCdTextFile_def split: list.splits)

lemma effect_rem: "parseRem ps s = (s', None) \<Longrightarrow> Files s' = Files s"
  by (auto simp: parseRem_def)

lemma effect_file:
  "parseFile ps s = (s', None) \<Longrightarrow>
   \<exists>name ty. Files s' = Files s @ [\<lparr>Name = name, Type = ty, Tracks = [], Duration = 0\<rparr>]"
  by (auto simp: parseFile_def split: list.splits sum.splits)

lemma effect_appendFlags:
  "appendFlags ps s = (s', None) \<Longrightarrow> getCurrentTrack s = Some t \<Longrightarrow>
   Files s' = Files s \<or> trackReplaced (Files s) (Files s')"
proof (induction ps arbitrary: s t)
  case Nil
  then show ?case by simp
next
  case (Cons p ps)
  from Cons.prems(1) obtain flag where fl: "flagParser p = Inr flag"
    and rest: "appendFlags ps (updateCurrentTrack (\<lambda>t. t\<lparr>Flags := Flags t @ [flag]\<rparr>) s) = (s', None)"
    by (auto split: sum.splits)
  let ?g0 = "\<lambda>t. t\<lparr>Flags := Flags t @ [flag]\<rparr>"
  have cur: "getCurrentTrack (updateCurrentTrack ?g0 s) = Some (?g0 t)"
    using Cons.prems(2) by (rule getCurrentTrack_update)
  have first: "trackReplaced (Files s) (Files (updateCurrentTrack ?g0 s))"
    using Cons.prems(2) by (rule trackReplaced_update) simp
  from Cons.IH [OF rest cur] show ?case
  proof
    assume "Files s' = Files (updateCurrentTrack ?g0 s)"
    with first show ?thesis by simp
  next
    assume "trackReplaced (Files (updateCurrentTrack ?g0 s)) (Files s')"
    with first show ?thesis by (blast intro: trackReplaced_trans)
  qed
qed

lemma effect_flags:
  "parseFlags ps s = (s', None) \<Longrightarrow>
   Files s' = Files s \<or> trackReplaced (Files s) (Files s')"
  by (auto simp: parseFlags_def split: option.splits dest: effect_appendFlags)

lemma effect_index:
  assumes "parseIndex ps s = (s', None)"
  shows "trackReplaced (Files s) (Files s')"
proof -
  from assms obtain t ix where "getCurrentTrack s = Some t"
    and "s' = updateCurrentTrack (\<lambda>t. t\<lparr>Indexes := Indexes t @ [ix]\<rparr>) s"
    unfolding parseIndex_def
    by (auto split: list.splits sum.splits prod.splits if_splits option.splits)
  then show ?thesis
    using trackReplaced_update [of s t "\<lambda>t. t\<lparr>Indexes := Indexes t @ [ix]\<rparr>"] by simp
qed

lemma effect_isrc:
  assumes "parseIsrc ps s = (s', None)"
  shows "trackReplaced (Files s) (Files s')"
proof -
  from assms obtain t v where "getCurrentTrack s = Some t"
    and "s' = updateCurrentTrack (\<lambda>t. t\<lparr>Isrc := v\<rparr>) s"
    unfolding parseIsrc_def
    by (auto split: list.splits if_splits option.splits)
  then show ?thesis
    using trackReplaced_update [of s t "\<lambda>t. t\<lparr>Isrc := v\<rparr>"] by simp
qed

lemma effect_postgap:
  assumes "parsePostgap ps s = (s', None)"
  shows "trackReplaced (Files s) (Files s')"
proof -
  from assms obtain t v where "getCurrentTrack s = Some t"
    and "s' = updateCurrentTrack (\<lambda>t. t\<lparr>Postgap := v\<rparr>) s"
    unfolding parsePostgap_def
    by (auto split: list.splits sum.splits prod.splits option.splits)
  then show ?thesis
    using trackReplaced_update [of s t "\<lambda>t. t\<lparr>Postgap := v\<rparr>"] by simp
qed

lemma effect_pregap:
  assumes "parsePregap ps s = (s', None)"
  shows "trackReplaced (Files s) (Files s')"
proof -
  from assms obtain t v where "getCurrentTrack s = Some t"
    and "s' = updateCurrentTrack (\<lambda>t. t\<lparr>Pregap := v\<rparr>) s"
    unfolding parsePregap_def
    by (auto split: list.splits sum.splits prod.splits if_splits option.splits)
  then show ?thesis
    using trackReplaced_update [of s t "\<lambda>t. t\<lparr>Pregap := v\<rparr>"] by simp
qed

lemma effect_performer:
  assumes "parsePerformer ps s = (s', None)"
  shows "Files s' = Files s \<or> trackReplaced (Files s) (Files s')"
proof (cases "getCurrentTrack s")
  case None
  with assms show ?thesis
    unfolding parsePerformer_def by (auto split: list.splits)
next
  case (Some t)
  with assms obtain v where "s' = updateCurrentTrack (\<lambda>t. t\<lparr>Performer := v\<rparr>) s"
    unfolding parsePerformer_def by (auto split: list.splits)
  then show ?thesis
    using Some trackReplaced_update [of s t "\<lambda>t. t\<lparr>Performer := v\<rparr>"] by simp
qed

lemma effect_songwriter:
  assumes "parseSongWriter ps s = (s', None)"
  shows "Files s' = Files s \<or> trackReplaced (Files s) (Files s')"
proof (cases "getCurrentTrack s")
  case None
  with assms show ?thesis
    unfolding parseSongWriter_def by (auto split: list.splits)
next
  case (Some t)
  with assms obtain v where "s' = updateCurrentTrack (\<lambda>t. t\<lparr>Songwriter := v\<rparr>) s"
    unfolding parseSongWriter_def by (auto split: list.splits)
  then show ?thesis
    using Some trackReplaced_update [of s t "\<lambda>t. t\<lparr>Songwriter := v\<rparr>"] by simp
qed

lemma effect_title:
  assumes "parseTitle ps s = (s', None)"
  shows "Files s' = Files s \<or> trackReplaced (Files s) (Files s')"
proof (cases "getCurrentTrack s")
  case None
  with assms show ?thesis
    unfolding parseTitle_def by (auto split: list.splits)
next
  case (Some t)
  with assms obtain v where "s' = updateCurrentTrack (\<lambda>t. t\<lparr>Title := v\<rparr>) s"
    unfolding parseTitle_def by (auto split: list.splits)
  then show ?thesis
    using Some trackReplaced_update [of s t "\<lambda>t. t\<lparr>Title := v\<rparr>"] by simp
qed

lemma effect_track:
  assumes "parseTrack ps s = (s', None)"
  shows "Files s \<noteq> [] \<and>
   (\<exists>n dt. 1 \<le> n \<and>
      (Tracks (last (Files s)) = [] \<or> n = Number (last (Tracks (last (Files s)))) + 1) \<and>
      Files s' = butlast (Files s) @
        [(last (Files s))\<lparr>Tracks := Tracks (last (Files s)) @ [newTrack n dt]\<rparr>])"
proof -
  from assms have ne: "Files s \<noteq> []"
    unfolding parseTrack_def by (auto split: if_splits)
  from assms ne obtain a b rest where ps: "ps = a # b # rest"
    unfolding parseTrack_def by (auto split: list.splits)
  from assms ne ps obtain n where n: "Atoi a = Inr n"
    unfolding parseTrack_def by (auto split: sum.splits)
  from assms ne ps n have n1: "1 \<le> n"
    unfolding parseTrack_def by (auto split: if_splits)
  from assms ne ps n n1 obtain dt where dt: "parseDataType b = Inr dt"
    unfolding parseTrack_def by (auto split: sum.splits)
  from assms ne ps n n1 dt
  have c: "Tracks (last (Files s)) = [] \<or> n = Number (last (Tracks (last (Files s)))) + 1"
    unfolding parseTrack_def Let_def by (auto split: if_splits)
  from assms ne ps n n1 dt c
  have "s' = s\<lparr>Files := butlast (Files s) @
        [(last (Files s))\<lparr>Tracks := Tracks (last (Files s)) @ [newTrack n dt]\<rparr>]\<rparr>"
    unfolding parseTrack_def Let_def by (auto split: if_splits)
  then have "Files s' = butlast (Files s) @
        [(last (Files s))\<lparr>Tracks := Tracks (last (Files s)) @ [newTrack n dt]\<rparr>]"
    by simp
  with ne n1 c show ?thesis by blast
qed

lemma handler_effect:
  assumes "parsersMap cmd = Some (k, h)" and "h ps s = (s', None)"
  shows "lineEffect cmd s s'"
proof -
  consider "cmd = ''CATALOG''" | "cmd = ''CDTEXTFILE''" | "cmd = ''FILE''" | "cmd = ''FLAGS''"
    | "cmd = ''INDEX''" | "cmd = ''ISRC''" | "cmd = ''PERFORMER''" | "cmd = ''POSTGAP''"
    | "cmd = ''PREGAP''" | "cmd = ''REM''" | "cmd = ''SONGWRITER''" | "cmd = ''TITLE''"
    | "cmd = ''TRACK''"
    using assms(1) by (auto simp: parsersMap_def split: if_splits)
  then show ?thesis
  proof cases
    case 1 with assms show ?thesis
      by (simp add: parsersMap_def lineEffect_def) (blast dest: effect_catalog)
  next
    case 2 with assms show ?thesis
      by (simp add: parsersMap_def lineEffect_def) (blast dest: effect_cdtext)
  next
    case 3 with assms show ?thesis
      by (simp add: parsersMap_def lineEffect_def) (blast dest: effect_file)
  next
    case 4 with assms show ?thesis
      by (simp add: parsersMap_def lineEffect_def) (blast dest: effect_flags)
  next
    case 5 with assms show ?thesis
      by (simp add: parsersMap_def lineEffect_def) (blast dest: effect_index)
  next
    case 6 with assms show ?thesis
      by (simp add: parsersMap_def lineEffect_def) (blast dest: effect_isrc)
  next
    case 7 with assms show ?thesis
      by (simp add: parsersMap_def lineEffect_def) (blast dest: effect_performer)
  next
    case 8 with assms show ?thesis
      by (simp add: parsersMap_def lineEffect_def) (blast dest: effect_postgap)
  next
    case 9 with assms show ?thesis
      by (simp add: parsersMap_def lineEffect_def) (blast dest: effect_pregap)
  next
    case 10 with assms show ?thesis
      by (simp add: parsersMap_def lineEffect_def) (blast dest: effect_rem)
  next
    case 11 with assms show ?thesis
      by (simp add: parsersMap_def lineEffect_def) (blast dest: effect_songwriter)
  next
    case 12 with assms show ?thesis
      by (simp add: parsersMap_def lineEffect_def) (blast dest: effect_title)
  next
    case 13 with assms show ?thesis
      by (simp add: parsersMap_def lineEffect_def) (blast dest: effect_track)
  qed
qed

lemma processLine_effect:
  "processLine n line s = Inr s' \<Longrightarrow> lineEffect (fst (parseCommand line)) s s'"
  unfolding processLine_def
  by (auto split: prod.splits option.splits if_splits dest: handler_effect)

section \<open>The cue sheet of the example, line by line\<close>

lemma example_tokens:
  "parseCommand fileLine = (''FILE'', [''test.wav'', ''WAVE''], None)"
  "parseCommand ''TRACK 01 AUDIO'' = (''TRACK'', [''01'', ''AUDIO''], None)"
  "parseCommand ''INDEX 01 00:00:00'' = (''INDEX'', [''01'', ''00:00:00''], None)"
  "parseCommand ''TRACK 02 AUDIO'' = (''TRACK'', [''02'', ''AUDIO''], None)"
  "parseCommand ''INDEX 01 03:00:00'' = (''INDEX'', [''01'', ''03:00:00''], None)"
  by code_simp+

lemma example_trim:
  "TrimSpace fileLine = fileLine"
  "TrimSpace ''  TRACK 01 AUDIO'' = ''TRACK 01 AUDIO''"
  "TrimSpace ''    INDEX 01 00:00:00'' = ''INDEX 01 00:00:00''"
  "TrimSpace '''' = ''''"
  "TrimSpace ''  TRACK 02 AUDIO'' = ''TRACK 02 AUDIO''"
  "TrimSpace ''    INDEX 01 03:00:00'' = ''INDEX 01 03:00:00''"
  by code_simp+

lemma parseTime_three: "parseTime ''03:00:00'' = Inr (3, 0, 0)"
  by (simp add: parseTime_def Atoi_small framesPerSecond_def)

lemma parseLines_step:
  "TrimSpace buf = line \<Longrightarrow> line \<noteq> [] \<Longrightarrow> processLine (Suc n) line s = Inr s1 \<Longrightarrow>
   parseLines (\<lambda>s. s) n s (Inr buf # rest) = parseLines (\<lambda>s. s) (Suc n) s1 rest"
  by (simp add: Let_def)

lemma parseLines_blank:
  "TrimSpace buf = [] \<Longrightarrow>
   parseLines (\<lambda>s. s) n s (Inr buf # rest) = parseLines (\<lambda>s. s) n s rest"
  by (simp add: Let_def)

lemma example_lines:
  "processLine n fileLine emptySheet = Inr sheetFile"
  "processLine n ''TRACK 01 AUDIO'' sheetFile = Inr sheetTrack"
  "processLine n ''INDEX 01 00:00:00'' sheetTrack = Inr sheetIndexed"
  "processLine n ''TRACK 02 AUDIO'' sheetIndexed = Inr sheetTwoTracks"
  "processLine n ''INDEX 01 03:00:00'' sheetTwoTracks = Inr exampleParsed"
  by (simp_all add: processLine_def example_tokens parsersMap_def
      parseFile_def parseFileType_def parseTrack_def parseIndex_def Atoi_small
      parseDataType_def parseTime_examples parseTime_three getCurrentTrack_def getCurrentFile_def
      updateCurrentTrack_def emptySheet_def exampleParsed_def newTrack_def zeroTime_def
      sheetFile_def sheetTrack_def sheetIndexed_def sheetTwoTracks_def del: append.simps)

lemma fileLine_not_empty: "fileLine \<noteq> []"
  by (simp add: fileLine_def)

lemma example_parseLines: "parseLines (\<lambda>s. s) 0 emptySheet exampleLines = Inr exampleParsed"
  unfolding exampleLines_def
  by (simp del: parseLines.simps
        add: parseLines.simps(1) fileLine_not_empty
          parseLines_step [OF example_trim(1) _ example_lines(1)]
          parseLines_step [OF example_trim(2) _ example_lines(2)]
          parseLines_step [OF example_trim(3) _ example_lines(3)]
          parseLines_blank [OF example_trim(4)]
          parseLines_step [OF example_trim(5) _ example_lines(4)]
          parseLines_step [OF example_trim(6) _ example_lines(5)])

lemma example_Parse:
  "Parse (\<lambda>s. s) exampleLines [2400] = (Some (resolvePositions [2400] exampleParsed), None)"
  by (simp add: Parse_def example_parseLines)

section \<open>C6: commands without a current track or a file\<close>

lemma getCurrentTrack_None_iff:
  "(getCurrentTrack s = None) = (Files s = [] \<or> Tracks (last (Files s)) = [])"
  by (simp add: getCurrentTrack_def getCurrentFile_def)

lemma effect_noTrack:
  assumes "lineEffect cmd s s'" and "cmd \<noteq> ''TRACK''" and "getCurrentTrack s = None"
  shows "getCurrentTrack s' = None"
proof -
  from assms(3) have n: "Files s = [] \<or> Tracks (last (Files s)) = []"
    by (simp add: getCurrentTrack_None_iff)
  from assms(1,2) consider "Files s' = Files s"
    | name ty where "Files s' = Files s @ [\<lparr>Name = name, Type = ty, Tracks = [], Duration = 0\<rparr>]"
    | "trackReplaced (Files s) (Files s')"
    unfolding lineEffect_def by blast
  then show ?thesis
  proof cases
    case 1
    with n show ?thesis by (simp add: getCurrentTrack_None_iff)
  next
    case 2
    then show ?thesis by (simp add: getCurrentTrack_None_iff)
  next
    case 3
    with n show ?thesis by (auto simp: trackReplaced_def)
  qed
qed

lemma effect_noFile:
  assumes "lineEffect cmd s s'" and "cmd \<noteq> ''FILE''" and "Files s = []"
  shows "Files s' = []"
  using assms unfolding lineEffect_def trackReplaced_def by auto

lemma effect_afterFile:
  assumes "lineEffect ''FILE'' s s'"
  shows "getCurrentTrack s' = None"
  using assms unfolding lineEffect_def by (auto simp: getCurrentTrack_None_iff)

lemma noTrack_Index:
  assumes "getCurrentTrack s = None"
  shows "\<exists>e. parseIndex [a, b] s = (s, Some e) \<and> e \<noteq> IndexOutOfRange"
  using assms unfolding parseIndex_def
  by (auto split: sum.splits prod.splits)

text \<open>
  C6. On a sheet without a current track (no file, or a last file without tracks) FLAGS,
  INDEX, ISRC, POSTGAP and PREGAP return an error and leave the sheet as it is; on a sheet
  without a file TRACK does. A sheet has no current track when it is new, after every line
  with FILE that succeeds, and after every line with another command than TRACK that
  succeeds on a sheet without a current track; it has no file when it is new and after
  every line with another command than FILE that succeeds on a sheet without a file. So
  "no current track" is "no TRACK has succeeded since the last FILE", and "no file" is "no
  FILE has succeeded".
\<close>

theorem commands_need_context:
  "(getCurrentTrack sheet = None \<longrightarrow>
      parseFlags params sheet =
        (sheet, Some (ErrorNew ''TRACK command should appears before FLAGS command''))
    \<and> (\<exists>e. parseIndex [p0, p1] sheet = (sheet, Some e) \<and> e \<noteq> IndexOutOfRange)
    \<and> parseIsrc [p0] sheet =
        (sheet, Some (ErrorNew ''TRACK command should appears before ISRC command''))
    \<and> parsePostgap params sheet =
        (sheet, Some (ErrorNew ''POSTGAP command must appear after a TRACK command''))
    \<and> parsePregap params sheet =
        (sheet, Some (ErrorNew ''PREGAP command must appear after a TRACK command'')))
 \<and> (Files sheet = [] \<longrightarrow>
      parseTrack params sheet =
        (sheet, Some (ErrorNew ''unexpected TRACK command, FILE command expected first'')))
 \<and> getCurrentTrack emptySheet = None \<and> Files emptySheet = []
 \<and> (processLine n line sheet = Inr sheet' \<and> fst (parseCommand line) = ''FILE'' \<longrightarrow>
      getCurrentTrack sheet' = None)
 \<and> (processLine n line sheet = Inr sheet' \<and> fst (parseCommand line) \<noteq> ''TRACK'' \<and>
    getCurrentTrack sheet = None \<longrightarrow> getCurrentTrack sheet' = None)
 \<and> (processLine n line sheet = Inr sheet' \<and> fst (parseCommand line) \<noteq> ''FILE'' \<and>
    Files sheet = [] \<longrightarrow> Files sheet' = [])"
proof -
  have a: "getCurrentTrack sheet = None \<Longrightarrow>
      parseFlags params sheet =
        (sheet, Some (ErrorNew ''TRACK command should appears before FLAGS command''))
    \<and> parseIsrc [p0] sheet =
        (sheet, Some (ErrorNew ''TRACK command should appears before ISRC command''))
    \<and> parsePostgap params sheet =
        (sheet, Some (ErrorNew ''POSTGAP command must appear after a TRACK command''))
    \<and> parsePregap params sheet =
        (sheet, Some (ErrorNew ''PREGAP command must appear after a TRACK command''))"
    by (simp add: parseFlags_def parseIsrc_def parsePostgap_def parsePregap_def)
  have b: "Files sheet = [] \<Longrightarrow>
      parseTrack params sheet =
        (sheet, Some (ErrorNew ''unexpected TRACK command, FILE command expected first''))"
    by (simp add: parseTrack_def)
  have c: "getCurrentTrack emptySheet = None \<and> Files emptySheet = []"
    by (simp add: getCurrentTrack_None_iff emptySheet_def)
  have d: "processLine n line sheet = Inr sheet' \<Longrightarrow> fst (parseCommand line) = ''FILE'' \<Longrightarrow>
      getCurrentTrack sheet' = None"
    using processLine_effect [of n line sheet sheet'] effect_afterFile [of sheet sheet'] by simp
  have e: "processLine n line sheet = Inr sheet' \<Longrightarrow> fst (parseCommand line) \<noteq> ''TRACK'' \<Longrightarrow>
    getCurrentTrack sheet = None \<Longrightarrow> getCurrentTrack sheet' = None"
    using processLine_effect [of n line sheet sheet'] effect_noTrack by blast
  have f: "processLine n line sheet = Inr sheet' \<Longrightarrow> fst (parseCommand line) \<noteq> ''FILE'' \<Longrightarrow>
    Files sheet = [] \<Longrightarrow> Files sheet' = []"
    using processLine_effect [of n line sheet sheet'] effect_noFile by blast
  from a b c d e f noTrack_Index [of sheet p0 p1] show ?thesis by blast
qed

lemma title_line:
  "parseCommand ''TITLE Album'' = (''TITLE'', [''Album''], None)"
  by code_simp

lemma title_processed:
  "processLine n ''TITLE Album'' emptySheet = Inr (emptySheet\<lparr>Title_s := ''Album''\<rparr>)"
  by (simp add: processLine_def title_line parsersMap_def parseTitle_def
        getCurrentTrack_examples stringTruncate_def)

text \<open>
  The theorem on the sheet after \<^verbatim>\<open>FILE "test.wav" WAVE\<close> for the five commands, on the
  new sheet for TRACK, and at the lines \<^verbatim>\<open>FILE "test.wav" WAVE\<close> and \<^verbatim>\<open>TITLE Album\<close>
  as first lines.
\<close>

theorem commands_need_context_witness:
  "parseFlags [''DCP''] sheetFile =
     (sheetFile, Some (ErrorNew ''TRACK command should appears before FLAGS command''))
   \<and> (\<exists>e. parseIndex [''01'', ''00:00:00''] sheetFile = (sheetFile, Some e) \<and>
          e \<noteq> IndexOutOfRange)
   \<and> parseIsrc [''ABCDE1234567''] sheetFile =
       (sheetFile, Some (ErrorNew ''TRACK command should appears before ISRC command''))
   \<and> parsePostgap [''00:02:00''] sheetFile =
       (sheetFile, Some (ErrorNew ''POSTGAP command must appear after a TRACK command''))
   \<and> parsePregap [''00:02:00''] sheetFile =
       (sheetFile, Some (ErrorNew ''PREGAP command must appear after a TRACK command''))
   \<and> parseTrack [''01'', ''AUDIO''] emptySheet =
       (emptySheet, Some (ErrorNew ''unexpected TRACK command, FILE command expected first''))
   \<and> getCurrentTrack sheetFile = None
   \<and> Files (emptySheet\<lparr>Title_s := ''Album''\<rparr>) = []"
proof -
  have e: "Files emptySheet = []"
    by (simp add: emptySheet_def)
  have c: "fst (parseCommand fileLine) = ''FILE''" "fst (parseCommand fileLine) \<noteq> ''TRACK''"
    "fst (parseCommand ''TITLE Album'') \<noteq> ''FILE''"
    by (simp_all add: example_tokens title_line)
  note A = commands_need_context [where sheet = sheetFile and params = "[''DCP'']"
      and ?p0.0 = "''01''" and ?p1.0 = "''00:00:00''"]
  note B = commands_need_context [where sheet = sheetFile and params = "[''00:02:00'']"
      and ?p0.0 = "''ABCDE1234567''"]
  note C = commands_need_context [where sheet = emptySheet and params = "[''01'', ''AUDIO'']"
      and line = fileLine and sheet' = sheetFile and n = 1]
  note D = commands_need_context [where sheet = emptySheet and line = "''TITLE Album''"
      and sheet' = "emptySheet\<lparr>Title_s := ''Album''\<rparr>" and n = 1]
  from A getCurrentTrack_examples(2)
  have 1: "parseFlags [''DCP''] sheetFile =
     (sheetFile, Some (ErrorNew ''TRACK command should appears before FLAGS command''))"
    and 2: "\<exists>e. parseIndex [''01'', ''00:00:00''] sheetFile = (sheetFile, Some e) \<and>
          e \<noteq> IndexOutOfRange"
    by blast+
  from B getCurrentTrack_examples(2)
  have 3: "parseIsrc [''ABCDE1234567''] sheetFile =
       (sheetFile, Some (ErrorNew ''TRACK command should appears before ISRC command''))"
    and 4: "parsePostgap [''00:02:00''] sheetFile =
       (sheetFile, Some (ErrorNew ''POSTGAP command must appear after a TRACK command''))"
    and 5: "parsePregap [''00:02:00''] sheetFile =
       (sheetFile, Some (ErrorNew ''PREGAP command must appear after a TRACK command''))"
    by blast+
  from C e have 6: "parseTrack [''01'', ''AUDIO''] emptySheet =
       (emptySheet, Some (ErrorNew ''unexpected TRACK command, FILE command expected first''))"
    by blast
  from C example_lines(1) [of 1] c(1) have 7: "getCurrentTrack sheetFile = None"
    by blast
  from D title_processed [of 1] c(3) e have 8: "Files (emptySheet\<lparr>Title_s := ''Album''\<rparr>) = []"
    by blast
  from 1 2 3 4 5 6 7 8 show ?thesis
    by blast
qed

section \<open>Invariants of the sheet while it is parsed\<close>


lemma trackNumbersOk_cong:
  "map Number (Tracks f) = map Number (Tracks g) \<Longrightarrow> trackNumbersOk f = trackNumbersOk g"
  by (simp add: trackNumbersOk_def)

lemma effect_numbers:
  assumes "lineEffect cmd s s'" and "list_all trackNumbersOk (Files s)"
  shows "list_all trackNumbersOk (Files s')"
proof -
  have lastok: "Files s \<noteq> [] \<Longrightarrow> trackNumbersOk (last (Files s))"
    using assms(2) by (simp add: list_all_iff)
  have butok: "list_all trackNumbersOk (butlast (Files s))"
    using assms(2) by (auto simp: list_all_iff dest: in_set_butlastD)
  from assms(1) consider "Files s' = Files s"
    | name ty where "Files s' = Files s @ [\<lparr>Name = name, Type = ty, Tracks = [], Duration = 0\<rparr>]"
    | n dt where "Files s \<noteq> []" "1 \<le> n"
        "Tracks (last (Files s)) = [] \<or> n = Number (last (Tracks (last (Files s)))) + 1"
        "Files s' = butlast (Files s) @
           [(last (Files s))\<lparr>Tracks := Tracks (last (Files s)) @ [newTrack n dt]\<rparr>]"
    | "trackReplaced (Files s) (Files s')"
    unfolding lineEffect_def by blast
  then show ?thesis
  proof cases
    case 1
    with assms(2) show ?thesis by simp
  next
    case 2
    with assms(2) show ?thesis by (simp add: trackNumbersOk_def)
  next
    case 3
    have nt: "newTrack n dt = (newTrack n dt)\<lparr>Number := n\<rparr>"
      by (simp add: newTrack_def)
    have "trackNumbersOk ((last (Files s))\<lparr>Tracks := Tracks (last (Files s)) @ [newTrack n dt]\<rparr>)"
      using trackNumbersOk_snoc [OF lastok [OF 3(1)] 3(2) 3(3), of "newTrack n dt"] nt by simp
    with 3(4) butok show ?thesis by simp
  next
    case 4
    then obtain t' where ne: "Files s \<noteq> []" "Tracks (last (Files s)) \<noteq> []"
      and n: "Number t' = Number (last (Tracks (last (Files s))))"
      and F: "Files s' = butlast (Files s) @
           [(last (Files s))\<lparr>Tracks := butlast (Tracks (last (Files s))) @ [t']\<rparr>]"
      unfolding trackReplaced_def by blast
    have "map Number (butlast (Tracks (last (Files s))) @ [t']) =
          map Number (butlast (Tracks (last (Files s))) @ [last (Tracks (last (Files s)))])"
      using n by simp
    also have "\<dots> = map Number (Tracks (last (Files s)))"
      using ne(2) by simp
    finally have "trackNumbersOk ((last (Files s))\<lparr>Tracks := butlast (Tracks (last (Files s))) @ [t']\<rparr>)
        = trackNumbersOk (last (Files s))"
      by (intro trackNumbersOk_cong) simp
    with lastok [OF ne(1)] F butok show ?thesis by simp
  qed
qed

lemma parseLines_invariant:
  assumes step: "\<And>cmd s s'. lineEffect cmd s s' \<Longrightarrow> P s \<Longrightarrow> P s'"
  shows "parseLines rm n s reader = Inr s' \<Longrightarrow> P s \<Longrightarrow> P s'"
proof (induction reader arbitrary: n s)
  case Nil
  then show ?case by simp
next
  case (Cons r reader)
  show ?case
  proof (cases r)
    case (Inl e)
    with Cons.prems show ?thesis by simp
  next
    case (Inr buf)
    show ?thesis
    proof (cases "TrimSpace (rm buf) = []")
      case True
      with Cons.prems Inr have "parseLines rm n s reader = Inr s'" by simp
      from Cons.IH [OF this Cons.prems(2)] show ?thesis .
    next
      case False
      with Cons.prems(1) Inr obtain s1
        where p: "processLine (n + 1) (TrimSpace (rm buf)) s = Inr s1"
          and r: "parseLines rm (n + 1) s1 reader = Inr s'"
        by (auto simp: Let_def split: sum.splits)
      from step [OF processLine_effect [OF p] Cons.prems(2)] have "P s1" .
      from Cons.IH [OF r this] show ?thesis .
    qed
  qed
qed


lemma parseLines_numbers:
  assumes "parseLines rm 0 emptySheet reader = Inr s"
  shows "list_all trackNumbersOk (Files s)"
proof -
  have "list_all trackNumbersOk (Files emptySheet)" by (simp add: emptySheet_def)
  with parseLines_invariant [where P = "\<lambda>s. list_all trackNumbersOk (Files s)", OF _ assms]
    effect_numbers show ?thesis by blast
qed

section \<open>C4: the positions of the tracks\<close>


lemma resolveFile_fields:
  "Duration (resolveFile durations fi f) =
     (if fi < length durations then durations ! fi else Duration f)"
  "length (Tracks (resolveFile durations fi f)) = length (Tracks f)"
  by (simp_all add: resolveFile_def Let_def)

lemma resolveFile_track:
  assumes "ti < length (Tracks f)"
  shows "Tracks (resolveFile durations fi f) ! ti =
     resolveTrack (if fi < length durations then f\<lparr>Duration := durations ! fi\<rparr> else f) ti
       (Tracks f ! ti)"
  using assms by (simp add: resolveFile_def Let_def nth_enumerate_eq)

lemma resolvePositions_file:
  "length (Files (resolvePositions durations s)) = length (Files s)"
  "fi < length (Files s) \<Longrightarrow>
   Files (resolvePositions durations s) ! fi = resolveFile durations fi (Files s ! fi)"
  by (simp_all add: resolvePositions_def nth_enumerate_eq)


text \<open>
  The test on the pregap of the next track is a test on its seconds: the pregap
  \<^verbatim>\<open>00:01:-75\<close>, which \<^verbatim>\<open>parseTime\<close> accepts, is not the zero time and has 0 seconds.
\<close>

lemma Seconds_zero_pregap:
  "parseTime ''00:01:-75'' = Inr (0, 1, - 75) \<and>
   Seconds \<lparr>Min_t = 0, Sec = 1, Frames = - 75\<rparr> = 0"
  by (simp add: parseTime_def Atoi_def isDigit_def maxUint64_def framesPerSecond_def
        Seconds_def wrap64_def)






section \<open>C1: the numbers of the tracks of a file\<close>

text \<open>
  Claim C1 says that the first TRACK of a file is accepted only with the number 1. The
  handler tests the number against the previous track only when the file has one
  ("all track numbers after the first must be sequential"), so the first track of a file is
  accepted with any number from 1 on: after \<^verbatim>\<open>FILE "test.wav" WAVE\<close>, the command
  \<^verbatim>\<open>TRACK 05 AUDIO\<close> succeeds and the file's only track has the number 5.
\<close>

theorem parseTrack_first_number_counterexample:
  "snd (parseTrack [''05'', ''AUDIO''] sheetFile) = None \<and>
   map Number (Tracks (last (Files (fst (parseTrack [''05'', ''AUDIO''] sheetFile))))) = [5]"
  by (simp add: parseTrack_def Atoi_small parseDataType_def sheetFile_def emptySheet_def
        newTrack_def)

lemma parseTrack_rule:
  assumes "Files sheet \<noteq> []"
      and "Atoi numberStr = Inr number"
      and "parseDataType dataTypeStr = Inr dataType"
  shows "(snd (parseTrack [numberStr, dataTypeStr] sheet) = None) =
           (1 \<le> number \<and>
            (Tracks (last (Files sheet)) = [] \<or>
             number = Number (last (Tracks (last (Files sheet)))) + 1))
       \<and> (snd (parseTrack [numberStr, dataTypeStr] sheet) \<noteq> None \<longrightarrow>
            fst (parseTrack [numberStr, dataTypeStr] sheet) = sheet)
       \<and> (snd (parseTrack [numberStr, dataTypeStr] sheet) = None \<longrightarrow>
            Files (fst (parseTrack [numberStr, dataTypeStr] sheet)) =
              butlast (Files sheet) @
              [(last (Files sheet))\<lparr>Tracks := Tracks (last (Files sheet)) @
                                              [newTrack number dataType]\<rparr>]
            \<and> (trackNumbersOk (last (Files sheet)) \<longrightarrow>
                 trackNumbersOk (last (Files (fst (parseTrack [numberStr, dataTypeStr] sheet))))))"
proof -
  let ?ok = "1 \<le> number \<and> (Tracks (last (Files sheet)) = [] \<or>
             number = Number (last (Tracks (last (Files sheet)))) + 1)"
  have fail: "\<not> ?ok \<Longrightarrow> \<exists>e. parseTrack [numberStr, dataTypeStr] sheet = (sheet, Some e)"
    using assms by (auto simp: parseTrack_def Let_def)
  have succ: "?ok \<Longrightarrow> parseTrack [numberStr, dataTypeStr] sheet =
      (sheet\<lparr>Files := butlast (Files sheet) @
              [(last (Files sheet))\<lparr>Tracks := Tracks (last (Files sheet)) @
                                              [newTrack number dataType]\<rparr>]\<rparr>, None)"
    using assms by (auto simp: parseTrack_def Let_def)
  have nt: "newTrack number dataType = (newTrack number dataType)\<lparr>Number := number\<rparr>"
    by (simp add: newTrack_def)
  show ?thesis
  proof (cases ?ok)
    case True
    have "trackNumbersOk (last (Files sheet)) \<Longrightarrow>
          trackNumbersOk ((last (Files sheet))\<lparr>Tracks := Tracks (last (Files sheet)) @
                                              [newTrack number dataType]\<rparr>)"
      using True trackNumbersOk_snoc [of "last (Files sheet)" number "newTrack number dataType"] nt
      by simp
    with True succ [OF True] show ?thesis by simp
  next
    case False
    from fail [OF False] obtain e
      where "parseTrack [numberStr, dataTypeStr] sheet = (sheet, Some e)" ..
    with False show ?thesis by simp
  qed
qed

lemma Number_resolveTrack: "Number (resolveTrack f ti t) = Number t"
  by (simp add: resolveTrack_def)

lemma trackNumbersOk_resolveFile:
  "trackNumbersOk (resolveFile durations fi f) = trackNumbersOk f"
proof -
  have "map Number (Tracks (resolveFile durations fi f)) = map Number (Tracks f)"
    by (rule nth_equalityI)
       (simp_all add: resolveFile_fields resolveFile_track Number_resolveTrack)
  then show ?thesis by (rule trackNumbersOk_cong)
qed

lemma Parse_numbers:
  assumes "Parse removeMn reader durations = (Some result, None)"
  shows "list_all trackNumbersOk (Files result)"
proof -
  from assms obtain s0 where p: "parseLines removeMn 0 emptySheet reader = Inr s0"
    and r: "result = resolvePositions durations s0"
    by (auto simp: Parse_def split: sum.splits)
  show ?thesis
    unfolding list_all_length
  proof (intro allI impI)
    fix i
    assume "i < length (Files result)"
    then have i: "i < length (Files s0)"
      by (simp add: r resolvePositions_file)
    then have "Files result ! i = resolveFile durations i (Files s0 ! i)"
      by (simp add: r resolvePositions_file)
    moreover have "trackNumbersOk (Files s0 ! i)"
      using parseLines_numbers [OF p] i by (simp add: list_all_length)
    ultimately show "trackNumbersOk (Files result ! i)"
      by (simp add: trackNumbersOk_resolveFile)
  qed
qed

text \<open>
  C1, amended. With a file in the sheet, a number that \<^verbatim>\<open>Atoi\<close> reads and a known data
  type, TRACK succeeds exactly when the number is at least 1 and, when the current file
  has a track already, is the number of its last track plus one. When it fails the sheet is
  as before. When it succeeds the track is appended to the current file, and track numbers
  that were \<open>k, k + 1, ...\<close> with \<open>k \<ge> 1\<close> still are. So in every file of a sheet that
  \<^verbatim>\<open>Parse\<close> returns the track numbers are \<open>k, k + 1, ..., k + N - 1\<close> for some \<open>k \<ge> 1\<close>.
\<close>

theorem parseTrack_sequence:
  "(Files sheet \<noteq> [] \<and> Atoi numberStr = Inr number \<and>
    parseDataType dataTypeStr = Inr dataType \<longrightarrow>
      (snd (parseTrack [numberStr, dataTypeStr] sheet) = None) =
           (1 \<le> number \<and>
            (Tracks (last (Files sheet)) = [] \<or>
             number = Number (last (Tracks (last (Files sheet)))) + 1))
       \<and> (snd (parseTrack [numberStr, dataTypeStr] sheet) \<noteq> None \<longrightarrow>
            fst (parseTrack [numberStr, dataTypeStr] sheet) = sheet)
       \<and> (snd (parseTrack [numberStr, dataTypeStr] sheet) = None \<longrightarrow>
            Files (fst (parseTrack [numberStr, dataTypeStr] sheet)) =
              butlast (Files sheet) @
              [(last (Files sheet))\<lparr>Tracks := Tracks (last (Files sheet)) @
                                              [newTrack number dataType]\<rparr>]
            \<and> (trackNumbersOk (last (Files sheet)) \<longrightarrow>
                 trackNumbersOk (last (Files (fst (parseTrack [numberStr, dataTypeStr] sheet)))))))
 \<and> (Parse removeMn reader durations = (Some result, None) \<longrightarrow>
      list_all trackNumbersOk (Files result))"
  using parseTrack_rule [of sheet numberStr number dataTypeStr dataType]
        Parse_numbers [of removeMn reader durations result]
  by blast

text \<open>
  The theorem at \<^verbatim>\<open>TRACK 02 AUDIO\<close> after \<^verbatim>\<open>TRACK 01 AUDIO\<close> (accepted), at
  \<^verbatim>\<open>TRACK 03 AUDIO\<close> after it (refused), and on the cue sheet of the example.
\<close>

theorem parseTrack_sequence_witness:
  "snd (parseTrack [''02'', ''AUDIO''] sheetTrack) = None \<and>
   trackNumbersOk (last (Files (fst (parseTrack [''02'', ''AUDIO''] sheetTrack)))) \<and>
   snd (parseTrack [''03'', ''AUDIO''] sheetTrack) \<noteq> None \<and>
   fst (parseTrack [''03'', ''AUDIO''] sheetTrack) = sheetTrack \<and>
   list_all trackNumbersOk (Files (resolvePositions [2400] exampleParsed))"
proof -
  have f: "Files sheetTrack \<noteq> []"
    by (simp add: sheetTrack_def emptySheet_def)
  have d: "parseDataType ''AUDIO'' = Inr DataTypeAudio"
    by (simp add: parseDataType_def)
  have ok: "trackNumbersOk (last (Files sheetTrack))"
    by (simp add: trackNumbersOk_def sheetTrack_def emptySheet_def newTrack_def)
  have n: "Number (last (Tracks (last (Files sheetTrack)))) = 1"
          "Tracks (last (Files sheetTrack)) \<noteq> []"
    by (simp_all add: sheetTrack_def emptySheet_def newTrack_def)
  note T2 = parseTrack_sequence [of sheetTrack "''02''" 2 "''AUDIO''" DataTypeAudio]
  note T3 = parseTrack_sequence [of sheetTrack "''03''" 3 "''AUDIO''" DataTypeAudio]
  note TP = parseTrack_sequence [of _ _ _ _ _ "\<lambda>s. s" exampleLines "[2400]"
      "resolvePositions [2400] exampleParsed"]
  from T2 f Atoi_small(7) d
  have r2: "(snd (parseTrack [''02'', ''AUDIO''] sheetTrack) = None) =
           (1 \<le> (2::int) \<and>
            (Tracks (last (Files sheetTrack)) = [] \<or>
             2 = Number (last (Tracks (last (Files sheetTrack)))) + 1))"
    and k2: "snd (parseTrack [''02'', ''AUDIO''] sheetTrack) = None \<longrightarrow>
            (trackNumbersOk (last (Files sheetTrack)) \<longrightarrow>
             trackNumbersOk (last (Files (fst (parseTrack [''02'', ''AUDIO''] sheetTrack)))))"
    by blast+
  from r2 n have a: "snd (parseTrack [''02'', ''AUDIO''] sheetTrack) = None"
    by simp
  from k2 a ok
  have b: "trackNumbersOk (last (Files (fst (parseTrack [''02'', ''AUDIO''] sheetTrack))))"
    by blast
  from T3 f Atoi_small(2) d
  have r3: "(snd (parseTrack [''03'', ''AUDIO''] sheetTrack) = None) =
           (1 \<le> (3::int) \<and>
            (Tracks (last (Files sheetTrack)) = [] \<or>
             3 = Number (last (Tracks (last (Files sheetTrack)))) + 1))"
    and k3: "snd (parseTrack [''03'', ''AUDIO''] sheetTrack) \<noteq> None \<longrightarrow>
            fst (parseTrack [''03'', ''AUDIO''] sheetTrack) = sheetTrack"
    by blast+
  from r3 n have c: "snd (parseTrack [''03'', ''AUDIO''] sheetTrack) \<noteq> None"
    by simp
  from k3 c have e: "fst (parseTrack [''03'', ''AUDIO''] sheetTrack) = sheetTrack"
    by blast
  from TP example_Parse
  have g: "list_all trackNumbersOk (Files (resolvePositions [2400] exampleParsed))"
    by blast
  from a b c e g show ?thesis
    by blast
qed

section \<open>C8: what Parse returns\<close>


lemma parseTime_no_panic: "parseTime p \<noteq> Inl IndexOutOfRange"
  by (auto simp: parseTime_def split: list.splits sum.splits if_splits)



























section \<open>C7: the errors of the tokenizer\<close>

lemma chars_distinct:
  "backslash \<noteq> nul" "backslash \<noteq> squote" "backslash \<noteq> dquote"
  "\<not> isQuoteChar backslash" "\<not> isSpaceByte backslash" "\<not> isQuoteChar nul"
  "squote \<noteq> nul" "dquote \<noteq> nul"
  by (simp_all add: backslash_def nul_def squote_def dquote_def isQuoteChar_def isSpaceByte_def)

lemma writeByte_error:
  "(writeByte q p ps c rest = Inl e) =
     (c = backslash \<and> rest = [] \<and> e = ErrorNew ''unfinished escape sequence'')"
  by (auto simp: writeByte_def split: list.splits sum.splits)

lemma iter_error:
  "(iter q p ps c rest = Inl e) =
     ((q = nul \<and> isQuoteChar c \<and> p \<noteq> [] \<and> e = ErrorNew ''unexpected quotation character'')
    \<or> (c = backslash \<and> q \<noteq> backslash \<and> rest = [] \<and>
        e = ErrorNew ''unfinished escape sequence''))"
  using chars_distinct
  by (auto simp: iter_def writeByte_error)

lemma iter_quoteState:
  "iter q p ps c rest = Inr (q', p', ps', rest') \<Longrightarrow> quoteState q \<Longrightarrow> quoteState q'"
  by (auto simp: iter_def writeByte_def quoteState_def
           split: if_splits list.splits sum.splits)

lemma visited_quoteState:
  "quoteState (fst cfg) \<Longrightarrow> list_all (\<lambda>c. quoteState (fst c)) (visited cfg)"
proof (induction cfg rule: visited.induct)
  case (1 quotedChar param params)
  then show ?case by simp
next
  case (2 quotedChar param params c rest)
  show ?case
  proof (cases "iter quotedChar param params c rest")
    case (Inl e)
    with 2 show ?thesis by simp
  next
    case (Inr cfg)
    obtain q' p' ps' rest' where cfg: "cfg = (q', p', ps', rest')" by (cases cfg) auto
    from iter_quoteState [OF Inr [unfolded cfg]] 2(2) have "quoteState (fst cfg)"
      by (simp add: cfg)
    with 2 Inr show ?thesis by simp
  qed
qed

lemma splitParams_error:
  "(snd (splitParams cfg) = Some e) =
     list_ex (\<lambda>(q, p, ps, rest). case rest of [] \<Rightarrow> False | c # cs \<Rightarrow> iter q p ps c cs = Inl e)
       (visited cfg)"
proof (induction cfg rule: splitParams.induct)
  case (1 quotedChar param params)
  then show ?case by simp
next
  case (2 quotedChar param params c rest)
  then show ?case
    by (cases "iter quotedChar param params c rest") auto
qed

lemma list_ex_cong_all:
  "list_all P xs \<Longrightarrow> (\<And>x. P x \<Longrightarrow> f x = g x) \<Longrightarrow> list_ex f xs = list_ex g xs"
  by (induction xs) auto

lemma quoteState_not_backslash: "quoteState q \<Longrightarrow> q \<noteq> backslash"
  using chars_distinct by (auto simp: quoteState_def isQuoteChar_def)

lemma splitParams_unexpected:
  assumes "quoteState (fst cfg)"
  shows "(snd (splitParams cfg) = Some (ErrorNew ''unexpected quotation character'')) =
           list_ex quoteInMiddle (visited cfg)"
  unfolding splitParams_error
proof (rule list_ex_cong_all [OF visited_quoteState [OF assms]])
  fix x :: config
  assume "quoteState (fst x)"
  obtain q p ps rest where x: "x = (q, p, ps, rest)" by (cases x) auto
  show "(case x of (q, p, ps, rest) \<Rightarrow>
           case rest of [] \<Rightarrow> False
           | c # cs \<Rightarrow> iter q p ps c cs = Inl (ErrorNew ''unexpected quotation character'')) =
        quoteInMiddle x"
    by (cases rest) (auto simp: x quoteInMiddle_def iter_error)
qed

lemma splitParams_unfinished:
  assumes "quoteState (fst cfg)"
  shows "(snd (splitParams cfg) = Some (ErrorNew ''unfinished escape sequence'')) =
           list_ex danglingBackslash (visited cfg)"
  unfolding splitParams_error
proof (rule list_ex_cong_all [OF visited_quoteState [OF assms]])
  fix x :: config
  assume qs: "quoteState (fst x)"
  obtain q p ps rest where x: "x = (q, p, ps, rest)" by (cases x) auto
  from qs have "q \<noteq> backslash" by (simp add: x quoteState_not_backslash)
  then show "(case x of (q, p, ps, rest) \<Rightarrow>
           case rest of [] \<Rightarrow> False
           | c # cs \<Rightarrow> iter q p ps c cs = Inl (ErrorNew ''unfinished escape sequence'')) =
        danglingBackslash x"
    by (cases rest) (auto simp: x danglingBackslash_def iter_error)
qed

lemma parseCommand_error:
  "snd (snd (parseCommand line)) =
     (case paramText line of None \<Rightarrow> None | Some pt \<Rightarrow> snd (splitParams (nul, [], [], pt)))"
  by (simp add: parseCommand_def paramText_def Let_def split: option.splits prod.splits)

lemma unknown_escape:
  assumes "quoteState q" and "d \<notin> set [dquote, squote, backslash, CHR ''n'', CHR ''t'']"
  shows "iter q param params backslash (d # ds) = Inr (q, param @ [backslash], params, d # ds)"
  using assms chars_distinct quoteState_not_backslash [OF assms(1)]
  by (auto simp: iter_def writeByte_def parseEscapeSequence_def quoteState_def)

text \<open>
  Claim C7 says that the tokenizer fails with "unfinished escape sequence" exactly when a
  backslash is the last character of the line. The line \<^verbatim>\<open>CMD a\<close> followed by two
  backslashes ends with a backslash and is accepted: the two backslashes are one escape
  sequence, and the parameter is \<^verbatim>\<open>a\<close> followed by one backslash.
\<close>

theorem final_backslash_counterexample:
  "last escapedBackslashLine = backslash \<and>
   parseCommand escapedBackslashLine = (''CMD'', [''a'' @ [backslash]], None)"
  by code_simp

text \<open>
  C7, amended. The tokenizer fails with "unexpected quotation character" exactly when its
  loop reaches, outside quote mode and with a current parameter that is not empty, a quote
  character. It fails with "unfinished escape sequence" exactly when its loop reaches a
  backslash that is the last byte of the parameter text: a final backslash that the loop
  does not reach, because it is the second byte of an escape sequence, because the line
  has no parameter text, or because an earlier quote stopped the loop, is no error. A
  backslash followed by a byte that is none of \<^verbatim>\<open>" ' \ n t\<close> is written to the
  parameter as it is, without error, and the loop goes on with the byte after it.
\<close>

theorem tokenizer_errors:
  "(snd (snd (parseCommand line)) = Some (ErrorNew ''unexpected quotation character'')) =
     list_ex quoteInMiddle (scanned line)
 \<and> (snd (snd (parseCommand line)) = Some (ErrorNew ''unfinished escape sequence'')) =
     list_ex danglingBackslash (scanned line)
 \<and> (quoteState q \<and> d \<notin> set [dquote, squote, backslash, CHR ''n'', CHR ''t''] \<longrightarrow>
      iter q param params backslash (d # ds) = Inr (q, param @ [backslash], params, d # ds))"
proof -
  have qs: "quoteState (fst (nul, [], [], t))" for t :: string
    by (simp add: quoteState_def)
  have a: "(snd (snd (parseCommand line)) = Some (ErrorNew ''unexpected quotation character'')) =
     list_ex quoteInMiddle (scanned line)"
    unfolding parseCommand_error scanned_def
    by (cases "paramText line") (simp_all add: splitParams_unexpected [OF qs])
  have b: "(snd (snd (parseCommand line)) = Some (ErrorNew ''unfinished escape sequence'')) =
     list_ex danglingBackslash (scanned line)"
    unfolding parseCommand_error scanned_def
    by (cases "paramText line") (simp_all add: splitParams_unfinished [OF qs])
  from a b unknown_escape [of q d param params ds] show ?thesis by blast
qed

lemma scanned_examples:
  "list_ex quoteInMiddle (scanned quoteLine)"
  "list_ex danglingBackslash (scanned backslashLine)"
  by code_simp+

text \<open>
  The theorem on \<^verbatim>\<open>CMD a"b\<close>, on \<^verbatim>\<open>CMD a\<close> followed by one backslash, and on the bytes
  \<^verbatim>\<open>\xb\<close> after \<^verbatim>\<open>a\<close>.
\<close>

theorem tokenizer_errors_witness:
  "snd (snd (parseCommand quoteLine)) = Some (ErrorNew ''unexpected quotation character'')
 \<and> snd (snd (parseCommand backslashLine)) = Some (ErrorNew ''unfinished escape sequence'')
 \<and> iter nul ''a'' [] backslash ''xb'' = Inr (nul, ''a'' @ [backslash], [], ''xb'')"
proof -
  have q: "quoteState nul" by (simp add: quoteState_def)
  have d: "CHR ''x'' \<notin> set [dquote, squote, backslash, CHR ''n'', CHR ''t'']"
    by (simp add: dquote_def squote_def backslash_def)
  from tokenizer_errors [of quoteLine] scanned_examples(1)
  have 1: "snd (snd (parseCommand quoteLine)) = Some (ErrorNew ''unexpected quotation character'')"
    by blast
  from tokenizer_errors [of backslashLine] scanned_examples(2)
  have 2: "snd (snd (parseCommand backslashLine)) = Some (ErrorNew ''unfinished escape sequence'')"
    by blast
  from tokenizer_errors [of _ nul "CHR ''x''" "''a''" "[]" "''b''"] q d
  have 3: "iter nul ''a'' [] backslash ''xb'' = Inr (nul, ''a'' @ [backslash], [], ''xb'')"
    by blast
  from 1 2 3 show ?thesis by blast
qed

section \<open>C10: a quote that is never closed\<close>

lemma iter_in_quote:
  assumes "q \<noteq> nul" and "iter q p ps c rest = Inr (q, p', ps', rest')"
  shows "iter q p ps c (rest @ [x]) = Inr (q, p', ps', rest' @ [x])
       \<and> ps' = ps \<and> length rest' \<le> length rest
       \<and> (\<exists>w. p' = p @ [w] \<and> (c \<noteq> backslash \<longrightarrow> w = c \<and> rest' = rest))"
proof -
  from assms have cq: "c \<noteq> q"
    by (auto simp: iter_def split: if_splits)
  with assms have w: "writeByte q p ps c rest = Inr (q, p', ps', rest')"
    by (simp add: iter_def)
  have i: "iter q p ps c (rest @ [x]) = writeByte q p ps c (rest @ [x])"
    using assms(1) cq by (simp add: iter_def)
  show ?thesis
  proof (cases "c = backslash")
    case False
    with w i show ?thesis by (auto simp: writeByte_def)
  next
    case True
    with w obtain d ds where r: "rest = d # ds"
      by (cases rest) (auto simp: writeByte_def)
    with True w i show ?thesis
      by (cases "parseEscapeSequence [backslash, d]") (auto simp: writeByte_def)
  qed
qed

lemma visited_head: "\<exists>tl. visited cfg = cfg # tl"
  by (cases cfg rule: visited.cases) auto

lemma unclosed_body:
  "q \<noteq> nul \<Longrightarrow> list_all (\<lambda>c. fst c = q) (visited (q, p, ps, cs)) \<Longrightarrow>
   snd (splitParams (q, p, ps, cs)) = None \<Longrightarrow>
   \<exists>body. splitParams (q, p, ps, cs) = (ps @ [p @ body], None) \<and>
          splitParams (q, p, ps, cs @ [q]) = (ps @ [p @ body], None) \<and>
          (backslash \<notin> set cs \<longrightarrow> body = cs)"
proof (induction cs arbitrary: p rule: length_induct)
  case (1 cs)
  show ?case
  proof (cases cs)
    case Nil
    have "iter q p ps q [] = Inr (nul, p, ps, [])"
      using 1(2) by (simp add: iter_def)
    then have "splitParams (q, p, ps, [] @ [q]) = (ps @ [p @ []], None)" by simp
    with Nil show ?thesis by simp
  next
    case (Cons c rest)
    from 1(4) Cons obtain cfg where it: "iter q p ps c rest = Inr cfg"
      by (cases "iter q p ps c rest") auto
    obtain q' p' ps' rest' where cfg: "cfg = (q', p', ps', rest')" by (cases cfg) auto
    from visited_head [of cfg] obtain tl where v: "visited cfg = cfg # tl" ..
    from 1(3) Cons it have all': "list_all (\<lambda>c. fst c = q) (visited cfg)" by simp
    with v cfg have q': "q' = q" by simp
    note it' = it [unfolded cfg q']
    from iter_in_quote [OF 1(2) it', of q] obtain w
      where app: "iter q p ps c (rest @ [q]) = Inr (q, p', ps', rest' @ [q])"
        and ps': "ps' = ps" and len: "length rest' \<le> length rest"
        and p': "p' = p @ [w]" and plain: "c \<noteq> backslash \<Longrightarrow> w = c \<and> rest' = rest"
      by blast
    have s1: "splitParams (q, p, ps, cs) = splitParams (q, p', ps, rest')"
      using Cons it' ps' by simp
    have s2: "splitParams (q, p, ps, cs @ [q]) = splitParams (q, p', ps, rest' @ [q])"
      using Cons app ps' by simp
    have "length rest' < length cs" using len Cons by simp
    moreover have "list_all (\<lambda>c. fst c = q) (visited (q, p', ps, rest'))"
      using all' cfg q' ps' by simp
    moreover have "snd (splitParams (q, p', ps, rest')) = None"
      using 1(4) s1 by simp
    ultimately obtain body where b: "splitParams (q, p', ps, rest') = (ps @ [p' @ body], None)"
      "splitParams (q, p', ps, rest' @ [q]) = (ps @ [p' @ body], None)"
      "backslash \<notin> set rest' \<longrightarrow> body = rest'"
      using 1(1) 1(2) by blast
    have "splitParams (q, p, ps, cs) = (ps @ [p @ (w # body)], None)"
      using s1 b(1) p' by simp
    moreover have "splitParams (q, p, ps, cs @ [q]) = (ps @ [p @ (w # body)], None)"
      using s2 b(2) p' by simp
    moreover have "backslash \<notin> set cs \<longrightarrow> w # body = cs"
      using Cons plain b(3) by auto
    ultimately show ?thesis by blast
  qed
qed

lemma unclosed_error:
  assumes "isQuoteChar q" and "list_all (\<lambda>c. fst c = q) (visited (q, p, ps, cs))"
    and "snd (splitParams (q, p, ps, cs)) = Some e"
  shows "e = ErrorNew ''unfinished escape sequence''"
proof -
  have qn: "q \<noteq> nul" using assms(1) chars_distinct by auto
  from assms(3) [unfolded splitParams_error] obtain x
    where x: "x \<in> set (visited (q, p, ps, cs))"
      and e: "case x of (q, p, ps, rest) \<Rightarrow>
           (case rest of [] \<Rightarrow> False | c # cs \<Rightarrow> iter q p ps c cs = Inl e)"
    by (auto simp: list_ex_iff)
  obtain q' p' ps' rest' where xx: "x = (q', p', ps', rest')" by (cases x) auto
  from assms(2) x xx have "q' = q" by (auto simp: list_all_iff)
  with e xx qn show ?thesis
    by (cases rest') (auto simp: iter_error)
qed

lemma visited_splitParams:
  "cfg' \<in> set (visited cfg) \<Longrightarrow> splitParams cfg = splitParams cfg'"
proof (induction cfg rule: visited.induct)
  case (1 quotedChar param params)
  then show ?case by simp
next
  case (2 quotedChar param params c rest)
  show ?case
  proof (cases "cfg' = (quotedChar, param, params, c # rest)")
    case True
    then show ?thesis by simp
  next
    case False
    with 2(2) obtain cfg where it: "iter quotedChar param params c rest = Inr cfg"
      and m: "cfg' \<in> set (visited cfg)"
      by (cases "iter quotedChar param params c rest") auto
    from 2(1) [OF it m] it show ?thesis by simp
  qed
qed

lemma scanned_parseCommand:
  assumes "cfg \<in> set (scanned line)"
  shows "snd (parseCommand line) = splitParams cfg"
proof -
  from assms obtain t where t: "paramText line = Some t"
    and m: "cfg \<in> set (visited (nul, [], [], t))"
    by (cases "paramText line") (auto simp: scanned_def)
  from t have "snd (parseCommand line) = splitParams (nul, [], [], t)"
    by (auto simp: parseCommand_def paramText_def Let_def split: option.splits prod.splits)
  with visited_splitParams [OF m] show ?thesis by simp
qed

text \<open>
  Claim C10 says that a parameter whose quote is never closed is accepted without error, as
  if the quote were closed at the end of the line. On \<^verbatim>\<open>CMD "abc\<close> followed by a
  backslash the quote is never closed and the tokenizer fails with "unfinished escape
  sequence"; with a quote at the end, \<^verbatim>\<open>CMD "abc\"\<close>, it returns the parameter
  \<^verbatim>\<open>abc"\<close>.
\<close>

theorem unclosed_quote_counterexample:
  "parseCommand (''CMD '' @ [dquote] @ unclosedDangling) =
     (''CMD'', [], Some (ErrorNew ''unfinished escape sequence''))
   \<and> list_all (\<lambda>c. fst c = dquote) (visited (dquote, [], [], unclosedDangling))
   \<and> splitParams (dquote, [], [], unclosedDangling) =
       ([], Some (ErrorNew ''unfinished escape sequence''))
   \<and> splitParams (dquote, [], [], unclosedDangling @ [dquote]) =
       ([''abc'' @ [dquote]], None)"
  by code_simp

text \<open>
  C10, amended. Let the loop be in quote mode with the quote character \<open>q\<close>, and let it
  stay there up to the end of the parameter text \<open>cs\<close> (the quote is never closed). Then
  the only error it can end with is "unfinished escape sequence", and it ends with it
  exactly when it reaches a backslash that is the last byte. When there is no error, the
  final parameter is what the parameter held when the quote was opened followed by a
  string \<open>body\<close>, which is \<open>cs\<close> itself when \<open>cs\<close> has no backslash (and \<open>cs\<close> with its
  escape sequences resolved otherwise), and the result is the result for \<open>cs\<close> followed by
  the closing quote. The parameter text is the line trimmed of white space; when the
  loop of a line goes through such a state, this is the result of \<^verbatim>\<open>parseCommand\<close> on the
  line.
\<close>

theorem unclosed_quote:
  assumes "isQuoteChar q"
      and "list_all (\<lambda>c. fst c = q) (visited (q, param, params, cs))"
  shows "(snd (splitParams (q, param, params, cs)) = None
          \<or> snd (splitParams (q, param, params, cs)) =
               Some (ErrorNew ''unfinished escape sequence''))
       \<and> (snd (splitParams (q, param, params, cs)) = None) =
           (\<not> list_ex danglingBackslash (visited (q, param, params, cs)))
       \<and> (snd (splitParams (q, param, params, cs)) = None \<longrightarrow>
            (\<exists>body. splitParams (q, param, params, cs) = (params @ [param @ body], None) \<and>
                    splitParams (q, param, params, cs @ [q]) = (params @ [param @ body], None) \<and>
                    (backslash \<notin> set cs \<longrightarrow> body = cs)))
       \<and> ((q, param, params, cs) \<in> set (scanned line) \<longrightarrow>
            snd (parseCommand line) = splitParams (q, param, params, cs))"
proof -
  have qn: "q \<noteq> nul" using assms(1) chars_distinct by auto
  have qs: "quoteState (fst (q, param, params, cs))"
    using assms(1) by (simp add: quoteState_def)
  have 1: "snd (splitParams (q, param, params, cs)) = None
          \<or> snd (splitParams (q, param, params, cs)) =
               Some (ErrorNew ''unfinished escape sequence'')"
    using unclosed_error [OF assms] by (cases "snd (splitParams (q, param, params, cs))") auto
  have 2: "(snd (splitParams (q, param, params, cs)) = None) =
           (\<not> list_ex danglingBackslash (visited (q, param, params, cs)))"
    using 1 splitParams_unfinished [OF qs] by auto
  from 1 2 unclosed_body [OF qn assms(2)] scanned_parseCommand [of "(q, param, params, cs)" line]
  show ?thesis by blast
qed

lemma unclosed_examples:
  "list_all (\<lambda>c. fst c = dquote) (visited (dquote, [], [], unclosedText))"
  "\<not> list_ex danglingBackslash (visited (dquote, [], [], unclosedText))"
  "(dquote, [], [], unclosedText) \<in> set (scanned unclosedLine)"
  by code_simp+

text \<open>The theorem on \<^verbatim>\<open>TITLE "abc def\<close>.\<close>

theorem unclosed_quote_witness:
  "snd (parseCommand unclosedLine) = ([unclosedText], None) \<and>
   splitParams (dquote, [], [], unclosedText) = ([unclosedText], None) \<and>
   splitParams (dquote, [], [], unclosedText @ [dquote]) = ([unclosedText], None)"
proof -
  have q: "isQuoteChar dquote" by (simp add: isQuoteChar_def)
  have nb: "backslash \<notin> set unclosedText"
    by (simp add: unclosedText_def backslash_def)
  note T = unclosed_quote [OF q unclosed_examples(1), of unclosedLine]
  from T unclosed_examples(2)
  obtain body where "splitParams (dquote, [], [], unclosedText) = ([] @ [[] @ body], None)"
    "splitParams (dquote, [], [], unclosedText @ [dquote]) = ([] @ [[] @ body], None)"
    "backslash \<notin> set unclosedText \<longrightarrow> body = unclosedText"
    by blast
  with nb have s: "splitParams (dquote, [], [], unclosedText) = ([unclosedText], None)"
    "splitParams (dquote, [], [], unclosedText @ [dquote]) = ([unclosedText], None)"
    by simp_all
  from T unclosed_examples(3)
  have "snd (parseCommand unclosedLine) = splitParams (dquote, [], [], unclosedText)"
    by blast
  with s show ?thesis by simp
qed

end
